theory Spec2Isabelle
  imports Main "HOL-Library.Sublist"
begin

section \<open>Lake Formation access-control automation: data model\<close>

text \<open>
  The three Lambda handlers of the repository are embedded here:
  \<^item> \<open>lakeformation_automation/lambda_function.py\<close> (the central dispatcher),
  \<^item> \<open>lakeformation_permissions/central/lambda_function.py\<close>,
  \<^item> \<open>lakeformation_permissions/consumption/lambda_function.py\<close>.
  A Python dict with optional keys is a record of \<open>option\<close> fields (\<open>None\<close>: the key is
  absent). Every \<open>raise\<close> is a value \<open>Inl e\<close>. Every call to an AWS service is appended to
  a trace, and its answer is read from a \<open>service\<close> function of the trace so far and the
  call, so that the model fixes neither the catalog's contents nor when a service fails.
\<close>

text \<open>What a service call can raise (the exceptions of the AWS client library), and what
  the program can raise: its own \<open>LFAttributeError\<close>, the interpreter's errors, and the
  exception of a service passing through.\<close>

datatype aws_error =
    EntityNotFoundException
  | ClientError string

datatype error =
    LFAttributeError
  | KeyError string
  | TypeError
  | IndexError
  | NameError
  | Aws aws_error

text \<open>The selector \<open>event['Table']\<close>; \<open>TableWildcard\<close> is the empty dict of the manifest.\<close>

record table_sel =
  t_DatabaseName :: "string option"
  t_Name :: "string option"
  t_TableWildcard :: "unit option"

text \<open>The selector \<open>event['TableWithColumns']\<close>; \<open>ColumnWildcard\<close> holds its
  \<open>ExcludedColumnNames\<close>.\<close>

record twc_sel =
  c_DatabaseName :: "string option"
  c_Name :: "string option"
  c_ColumnNames :: "string list option"
  c_ColumnWildcard :: "string list option"

text \<open>A permission record of the manifest, which is also the payload \<open>perms_to_set\<close>.\<close>

record event =
  AccountID :: "string option"
  Principal :: "string option"
  Table :: "table_sel option"
  TableWithColumns :: "twc_sel option"
  Permissions :: "string list option"
  PermissionsWithGrantOption :: "string list option"
  AccessType :: "string option"

text \<open>The dicts \<open>table_json\<close> and \<open>tableWithColumns_json\<close> that \<open>buildjson\<close> fills. The
  empty dict \<open>{}\<close> is \<open>None\<close> of the option type around them: a filled dict always has
  \<open>DatabaseName\<close> and \<open>CatalogId\<close>.\<close>

record table_json =
  tj_DatabaseName :: string
  tj_CatalogId :: string
  tj_Name :: "string option"
  tj_TableWildcard :: "unit option"

record twc_json =
  cj_DatabaseName :: string
  cj_CatalogId :: string
  cj_Name :: string
  cj_ColumnNames :: "string list option"
  cj_ColumnWildcard :: "string list option"

record database_json =
  dj_CatalogId :: "string option"
  dj_Name :: string

text \<open>The \<open>Resource\<close> argument of the permission service: a dict with the optional keys
  \<open>Database\<close>, \<open>Table\<close> and \<open>TableWithColumns\<close>.\<close>

record resource =
  r_Database :: "database_json option"
  r_Table :: "table_json option"
  r_TableWithColumns :: "twc_json option"

text \<open>The calls that leave the process. \<open>LF_grant_permissions\<close> has the principal
  identifier, the resource, \<open>Permissions\<close> and \<open>PermissionsWithGrantOption\<close> (\<open>None\<close> when
  the keyword argument is not passed). \<open>Glue_create_database\<close> has \<open>Name\<close>, the target's
  \<open>CatalogId\<close> and the target's \<open>DatabaseName\<close>. \<open>SNS_publish\<close> has \<open>TopicArn\<close>, the value
  under \<open>perms_to_set\<close> and the message attribute \<open>account_id\<close>.\<close>

datatype call =
    LF_grant_permissions string resource "string list" "string list option"
  | LF_revoke_permissions string resource "string list"
  | Glue_get_database string
  | Glue_create_database string string string
  | SNS_publish string event string
  | Sleep nat

text \<open>A service answers a call, given the calls made before it, with an error or with the
  \<open>HTTPStatusCode\<close> of its response.\<close>

type_synonym service = "call list \<Rightarrow> call \<Rightarrow> aws_error + nat"

text \<open>\<open>os.environ\<close>: the variables the handlers read, taken to be set.\<close>

record environ =
  ACCOUNT_ID :: string
  REGION :: string
  FOUNDATION_ACCOUNT_ID :: string

section \<open>Effects: a trace of calls and a result or an error\<close>

type_synonym 'a io = "call list \<Rightarrow> (error + 'a) \<times> call list"

definition return_io :: "'a \<Rightarrow> 'a io" where
  "return_io x tr = (Inr x, tr)"

definition raise_io :: "error \<Rightarrow> 'a io" where
  "raise_io e tr = (Inl e, tr)"

definition bind_io :: "'a io \<Rightarrow> ('a \<Rightarrow> 'b io) \<Rightarrow> 'b io" where
  "bind_io m f tr = (case m tr of (Inl e, tr') \<Rightarrow> (Inl e, tr') | (Inr x, tr') \<Rightarrow> f x tr')"

text \<open>A call is recorded whether or not the service answers with an error.\<close>

definition do_call :: "service \<Rightarrow> call \<Rightarrow> nat io" where
  "do_call svc c tr = ((case svc tr c of Inl e \<Rightarrow> Inl (Aws e) | Inr n \<Rightarrow> Inr n), tr @ [c])"

definition sleep :: "nat \<Rightarrow> unit io" where
  "sleep n tr = (Inr (), tr @ [Sleep n])"

section \<open>Strings\<close>

text \<open>Python's \<open>sub in s\<close> on strings.\<close>

fun str_in :: "string \<Rightarrow> string \<Rightarrow> bool" where
  "str_in sub [] = (sub = [])"
| "str_in sub (c # cs) = (prefix sub (c # cs) \<or> str_in sub cs)"

text \<open>Python's \<open>s.split(sep)\<close> for a non-empty separator: \<open>cur\<close> is the piece being read.\<close>

function split_str :: "string \<Rightarrow> string \<Rightarrow> string \<Rightarrow> string list" where
  "split_str sep cur [] = [cur]"
| "split_str sep cur (c # cs) =
     (if sep \<noteq> [] \<and> prefix sep (c # cs)
      then cur # split_str sep [] (drop (length sep) (c # cs))
      else split_str sep (cur @ [c]) cs)"
  by pat_completeness auto
termination
  by (relation "measure (\<lambda>(sep, cur, s). length s)") auto

definition py_split :: "string \<Rightarrow> string \<Rightarrow> string list" where
  "py_split s sep = split_str sep [] s"

text \<open>\<open>xs[1]\<close>, which raises \<open>IndexError\<close> on a list of fewer than two items.\<close>

definition index1 :: "'a list \<Rightarrow> 'a io" where
  "index1 xs = (case xs of _ # y # _ \<Rightarrow> return_io y | _ \<Rightarrow> raise_io IndexError)"

text \<open>\<open>str.lower()\<close> on ASCII letters.\<close>

definition lower_char :: "char \<Rightarrow> char" where
  "lower_char c =
     (case map_of (zip ''ABCDEFGHIJKLMNOPQRSTUVWXYZ'' ''abcdefghijklmnopqrstuvwxyz'') c of
        Some d \<Rightarrow> d | None \<Rightarrow> c)"

definition lower :: "string \<Rightarrow> string" where
  "lower s = map lower_char s"

section \<open>Central account path\<close>

text \<open>\<open>grant_db_describe\<close> of the central path: one grant of \<open>['DESCRIBE']\<close> on
  \<open>{'Database': {'Name': database}}\<close>, with no \<open>PermissionsWithGrantOption\<close> argument.\<close>

definition central_grant_db_describe :: "service \<Rightarrow> string \<Rightarrow> string \<Rightarrow> nat io" where
  "central_grant_db_describe svc principal' database =
     do_call svc (LF_grant_permissions principal'
        \<lparr>r_Database = Some \<lparr>dj_CatalogId = None, dj_Name = database\<rparr>,
         r_Table = None, r_TableWithColumns = None\<rparr>
        [''DESCRIBE''] None)"

text \<open>The two lines \<open>if 'foundation_' in d: d = d.split('foundation_')[1]\<close>.\<close>

definition strip_foundation :: "string \<Rightarrow> string io" where
  "strip_foundation d =
     (if str_in ''foundation_'' d then index1 (py_split d ''foundation_'') else return_io d)"

text \<open>The permission block of \<open>buildjson\<close>, with \<open>perm_lit\<close> as a parameter: the dict
  \<open>perm_json\<close> gets its key \<open>Permissions\<close> only when the event has one, and the \<open>else\<close> branch
  is the bare expression \<open>LFAttributeError\<close>, which raises nothing.\<close>

definition perm_block :: "string list \<Rightarrow> event \<Rightarrow> string list option" where
  "perm_block perm_lit ev =
     (case Permissions ev of
        Some ps \<Rightarrow>
          if filter (\<lambda>p. p \<notin> set ps) perm_lit \<noteq> [] then Some perm_lit else Some ps
      | None \<Rightarrow> None)"

text \<open>The resource block of \<open>buildjson\<close> (\<open>if 'Table' in event: ... elif 'TableWithColumns'
  in event: ... else: raise\<close>), with the function that grants DESCRIBE on the database and
  the catalog id as parameters, since the two paths differ only there.\<close>

definition resource_block ::
  "(string \<Rightarrow> nat io) \<Rightarrow> string \<Rightarrow> event \<Rightarrow> (table_json option \<times> twc_json option) io" where
  "resource_block describe catalog ev =
     (case Table ev of
        Some t \<Rightarrow>
          (case t_DatabaseName t of
             None \<Rightarrow> raise_io LFAttributeError
           | Some d \<Rightarrow>
               bind_io (describe d) (\<lambda>response.
               bind_io (strip_foundation d) (\<lambda>d'.
                 case t_Name t of
                   Some n \<Rightarrow> return_io
                     (Some \<lparr>tj_DatabaseName = d', tj_CatalogId = catalog,
                            tj_Name = Some n, tj_TableWildcard = None\<rparr>, None)
                 | None \<Rightarrow>
                     (case t_TableWildcard t of
                        Some w \<Rightarrow> return_io
                          (Some \<lparr>tj_DatabaseName = d', tj_CatalogId = catalog,
                                 tj_Name = None, tj_TableWildcard = Some w\<rparr>, None)
                      | None \<Rightarrow> raise_io LFAttributeError))))
      | None \<Rightarrow>
          (case TableWithColumns ev of
             Some c \<Rightarrow>
               (case c_DatabaseName c of
                  None \<Rightarrow> raise_io LFAttributeError
                | Some d \<Rightarrow>
                    bind_io (describe d) (\<lambda>response.
                    bind_io (strip_foundation d) (\<lambda>d'.
                      case c_Name c of
                        None \<Rightarrow> raise_io LFAttributeError
                      | Some n \<Rightarrow>
                          (case c_ColumnNames c of
                             Some cols \<Rightarrow> return_io
                               (None, Some \<lparr>cj_DatabaseName = d', cj_CatalogId = catalog,
                                  cj_Name = n, cj_ColumnNames = Some cols,
                                  cj_ColumnWildcard = None\<rparr>)
                           | None \<Rightarrow>
                               (case c_ColumnWildcard c of
                                  Some w \<Rightarrow> return_io
                                    (None, Some \<lparr>cj_DatabaseName = d', cj_CatalogId = catalog,
                                       cj_Name = n, cj_ColumnNames = None,
                                       cj_ColumnWildcard = Some w\<rparr>)
                                | None \<Rightarrow> raise_io LFAttributeError)))))
           | None \<Rightarrow> raise_io LFAttributeError))"

text \<open>What \<open>buildjson\<close> returns: \<open>principal_json\<close> (its one value), \<open>table_json\<close>,
  \<open>tableWithColumns_json\<close>, \<open>perm_json\<close> (the value under \<open>Permissions\<close>, if any) and
  \<open>perm_grant_json\<close> (the value under \<open>PermissionsWithGrantOption\<close>, if any).\<close>

type_synonym jsons =
  "string \<times> table_json option \<times> twc_json option \<times> string list option \<times> string list option"

definition central_buildjson :: "service \<Rightarrow> environ \<Rightarrow> event \<Rightarrow> jsons io" where
  "central_buildjson svc env ev =
     (case Principal ev of
        None \<Rightarrow> raise_io LFAttributeError
      | Some p \<Rightarrow>
          bind_io (resource_block (central_grant_db_describe svc p) (ACCOUNT_ID env) ev)
            (\<lambda>(table_json, tableWithColumns_json).
               return_io (p, table_json, tableWithColumns_json,
                  perm_block [''SELECT'', ''DESCRIBE''] ev,
                  (case PermissionsWithGrantOption ev of
                     Some g \<Rightarrow> Some [''SELECT'', ''DESCRIBE''] | None \<Rightarrow> None))))"

text \<open>\<open>resource = {}; if table_json: ... elif tableWithColumns_json: ...\<close>\<close>

definition build_resource :: "table_json option \<Rightarrow> twc_json option \<Rightarrow> resource" where
  "build_resource table_json tableWithColumns_json =
     (case table_json of
        Some t \<Rightarrow> \<lparr>r_Database = None, r_Table = Some t, r_TableWithColumns = None\<rparr>
      | None \<Rightarrow> \<lparr>r_Database = None, r_Table = None, r_TableWithColumns = tableWithColumns_json\<rparr>)"

text \<open>\<open>perm_json['Permissions']\<close>.\<close>

definition perm_lookup :: "string list option \<Rightarrow> string list io" where
  "perm_lookup perm_json =
     (case perm_json of None \<Rightarrow> raise_io (KeyError ''Permissions'') | Some ps \<Rightarrow> return_io ps)"

definition central_grant_lf_permissions ::
  "service \<Rightarrow> string \<Rightarrow> table_json option \<Rightarrow> twc_json option \<Rightarrow> string list option \<Rightarrow>
   string list option \<Rightarrow> nat io" where
  "central_grant_lf_permissions svc principal_json table_json tableWithColumns_json perm_json
      perm_grant_json =
     bind_io (perm_lookup perm_json) (\<lambda>ps.
       do_call svc (LF_grant_permissions principal_json
         (build_resource table_json tableWithColumns_json) ps
         (Some (case perm_grant_json of Some g \<Rightarrow> g | None \<Rightarrow> []))))"

definition revoke_lf_permissions ::
  "service \<Rightarrow> string \<Rightarrow> table_json option \<Rightarrow> twc_json option \<Rightarrow> string list option \<Rightarrow> nat io" where
  "revoke_lf_permissions svc principal_json table_json tableWithColumns_json perm_json =
     bind_io (perm_lookup perm_json) (\<lambda>ps.
       do_call svc (LF_revoke_permissions principal_json
         (build_resource table_json tableWithColumns_json) ps))"

text \<open>The \<open>for\<close> loop of \<open>lambda_handler\<close>: \<open>buildjson\<close> on every record, each result
  overwriting the one before; \<open>held\<close> is what the loop variables hold (\<open>None\<close>: unbound).\<close>

fun buildjson_loop ::
  "(event \<Rightarrow> jsons io) \<Rightarrow> event list \<Rightarrow> (event \<times> jsons) option \<Rightarrow> (event \<times> jsons) option io" where
  "buildjson_loop bj [] held = return_io held"
| "buildjson_loop bj (event_body # records) held =
     bind_io (bj event_body) (\<lambda>js. buildjson_loop bj records (Some (event_body, js)))"

text \<open>The statements of \<open>lambda_handler\<close> after the loop, which read the variables of the
  last iteration; on an empty batch they are unbound and the first use raises.\<close>

definition central_apply :: "service \<Rightarrow> (event \<times> jsons) option \<Rightarrow> unit io" where
  "central_apply svc held =
     (case held of
        None \<Rightarrow> raise_io NameError
      | Some (event_body, (principal_json, table_json, tableWithColumns_json, perm_json,
                perm_grant_json)) \<Rightarrow>
          (case AccessType event_body of
             None \<Rightarrow> raise_io (KeyError ''AccessType'')
           | Some a \<Rightarrow>
               if lower a = ''grant'' then
                 bind_io (central_grant_lf_permissions svc principal_json table_json
                            tableWithColumns_json perm_json perm_grant_json)
                   (\<lambda>response. return_io ())
               else if lower a = ''revoke'' then
                 bind_io (revoke_lf_permissions svc principal_json table_json
                            tableWithColumns_json perm_json)
                   (\<lambda>response. return_io ())
               else raise_io LFAttributeError))"

text \<open>\<open>lambda_handler\<close> of the central path, on the list of the \<open>perms_to_set\<close> payloads of
  the delivered records (the JSON decoding of each record's body is not modelled).\<close>

definition central_lambda_handler :: "service \<Rightarrow> environ \<Rightarrow> event list \<Rightarrow> unit io" where
  "central_lambda_handler svc env records =
     bind_io (buildjson_loop (central_buildjson svc env) records None) (central_apply svc)"

section \<open>Consumption account path\<close>

text \<open>\<open>check_db_exist\<close>: \<open>True\<close> when \<open>get_database\<close> answers, \<open>False\<close> on
  \<open>EntityNotFoundException\<close>, and any other exception is raised again.\<close>

definition check_db_exist :: "service \<Rightarrow> string \<Rightarrow> bool io" where
  "check_db_exist svc database tr =
     (case do_call svc (Glue_get_database database) tr of
        (Inr response, tr') \<Rightarrow> (Inr True, tr')
      | (Inl (Aws EntityNotFoundException), tr') \<Rightarrow> (Inr False, tr')
      | (Inl e, tr') \<Rightarrow> (Inl e, tr'))"

text \<open>\<open>grant_db_describe\<close> of the consumption path. The name \<open>database\<close> is rebound to the
  prefixed name (\<open>link\<close>) when it does not contain \<open>foundation_\<close>; the resource link is
  created when the lookup says it is missing; then DESCRIBE is granted on the link in the
  consumption catalog.\<close>

definition consumption_grant_db_describe ::
  "service \<Rightarrow> environ \<Rightarrow> string \<Rightarrow> string \<Rightarrow> nat io" where
  "consumption_grant_db_describe svc env principal' database =
     (let link = (if \<not> str_in ''foundation_'' database then ''foundation_'' @ database
                  else database)
      in bind_io (check_db_exist svc link) (\<lambda>db_exist.
         bind_io (if \<not> db_exist
                  then bind_io (index1 (py_split link ''foundation_'')) (\<lambda>target.
                       bind_io (do_call svc
                          (Glue_create_database link (FOUNDATION_ACCOUNT_ID env) target))
                         (\<lambda>response. return_io ()))
                  else return_io ())
           (\<lambda>u. do_call svc (LF_grant_permissions principal'
                   \<lparr>r_Database = Some \<lparr>dj_CatalogId = Some (ACCOUNT_ID env), dj_Name = link\<rparr>,
                    r_Table = None, r_TableWithColumns = None\<rparr>
                   [''DESCRIBE''] None))))"

text \<open>\<open>buildjson\<close> of the consumption path has no \<open>perm_grant_json\<close>: the last component
  of the result is \<open>None\<close> here and is never read.\<close>

definition consumption_buildjson :: "service \<Rightarrow> environ \<Rightarrow> event \<Rightarrow> jsons io" where
  "consumption_buildjson svc env ev =
     (case Principal ev of
        None \<Rightarrow> raise_io LFAttributeError
      | Some p \<Rightarrow>
          bind_io (resource_block (consumption_grant_db_describe svc env p)
                     (FOUNDATION_ACCOUNT_ID env) ev)
            (\<lambda>(table_json, tableWithColumns_json).
               return_io (p, table_json, tableWithColumns_json,
                  perm_block [''SELECT''] ev, None)))"

definition consumption_grant_lf_permissions ::
  "service \<Rightarrow> string \<Rightarrow> table_json option \<Rightarrow> twc_json option \<Rightarrow> string list option \<Rightarrow> nat io" where
  "consumption_grant_lf_permissions svc principal_json table_json tableWithColumns_json perm_json =
     bind_io (perm_lookup perm_json) (\<lambda>ps.
       do_call svc (LF_grant_permissions principal_json
         (build_resource table_json tableWithColumns_json) ps None))"

definition consumption_apply :: "service \<Rightarrow> (event \<times> jsons) option \<Rightarrow> unit io" where
  "consumption_apply svc held =
     (case held of
        None \<Rightarrow> raise_io NameError
      | Some (event_body, (principal_json, table_json, tableWithColumns_json, perm_json,
                unused)) \<Rightarrow>
          (case AccessType event_body of
             None \<Rightarrow> raise_io (KeyError ''AccessType'')
           | Some a \<Rightarrow>
               if lower a = ''grant'' then
                 bind_io (consumption_grant_lf_permissions svc principal_json table_json
                            tableWithColumns_json perm_json)
                   (\<lambda>response. return_io ())
               else if lower a = ''revoke'' then
                 bind_io (revoke_lf_permissions svc principal_json table_json
                            tableWithColumns_json perm_json)
                   (\<lambda>response. return_io ())
               else raise_io LFAttributeError))"

definition consumption_lambda_handler :: "service \<Rightarrow> environ \<Rightarrow> event list \<Rightarrow> unit io" where
  "consumption_lambda_handler svc env records =
     bind_io (buildjson_loop (consumption_buildjson svc env) records None)
       (consumption_apply svc)"

section \<open>Central dispatcher\<close>

text \<open>One field \<open>[^:\n]*\<close> of the ARN pattern followed by its colon: the field and the rest
  of the string, or \<open>None\<close> when a newline or the end comes before a colon.\<close>

fun arn_field :: "string \<Rightarrow> (string \<times> string) option" where
  "arn_field [] = None"
| "arn_field (c # cs) =
     (if c = CHR '':'' then Some ([], cs)
      else if c = CHR 0x0A then None
      else (case arn_field cs of None \<Rightarrow> None | Some (f, r) \<Rightarrow> Some (c # f, r)))"

text \<open>What is left after the account id matches \<open>(...[:\/])?(.*)$\<close> exactly when it has no
  newline other than a last one: \<open>.\<close> matches no newline, and \<open>$\<close> matches at the end and
  before a final newline.\<close>

definition arn_rest_ok :: "string \<Rightarrow> bool" where
  "arn_rest_ok r =
     (CHR 0x0A \<notin> set (if r \<noteq> [] \<and> last r = CHR 0x0A then butlast r else r))"

text \<open>\<open>arn_regex.match(s)\<close>, reduced to what the code reads of the match object: its group 4
  (\<open>AccountID\<close>); \<open>None\<close> when the string does not match.\<close>

definition arn_match :: "string \<Rightarrow> string option" where
  "arn_match s =
     (if prefix ''arn:'' s then
        (case arn_field (drop 4 s) of None \<Rightarrow> None | Some (partition', r1) \<Rightarrow>
          (case arn_field r1 of None \<Rightarrow> None | Some (service', r2) \<Rightarrow>
            (case arn_field r2 of None \<Rightarrow> None | Some (region', r3) \<Rightarrow>
              (case arn_field r3 of None \<Rightarrow> None | Some (account, r4) \<Rightarrow>
                 if arn_rest_ok r4 then Some account else None))))
      else None)"

text \<open>\<open>perm_record['Principal']\<close> and \<open>perm_record['AccessType']\<close>.\<close>

definition get_Principal :: "event \<Rightarrow> string io" where
  "get_Principal r =
     (case Principal r of None \<Rightarrow> raise_io (KeyError ''Principal'') | Some p \<Rightarrow> return_io p)"

definition get_AccessType :: "event \<Rightarrow> string io" where
  "get_AccessType r =
     (case AccessType r of None \<Rightarrow> raise_io (KeyError ''AccessType'') | Some a \<Rightarrow> return_io a)"

text \<open>\<open>generate_db_perm\<close>: the record that asks for the database-level grant.\<close>

definition generate_db_perm :: "environ \<Rightarrow> event \<Rightarrow> event io" where
  "generate_db_perm env perm_record =
     bind_io (get_Principal perm_record) (\<lambda>p.
       case arn_match p of
         None \<Rightarrow> raise_io LFAttributeError
       | Some account \<Rightarrow>
           bind_io
             (case Table perm_record of
                Some t \<Rightarrow>
                  (case t_DatabaseName t of
                     None \<Rightarrow> raise_io LFAttributeError
                   | Some d \<Rightarrow> return_io d)
              | None \<Rightarrow>
                  (case TableWithColumns perm_record of
                     None \<Rightarrow> raise_io LFAttributeError
                   | Some c \<Rightarrow>
                       (case c_DatabaseName c of
                          Some d \<Rightarrow> return_io d
                        | None \<Rightarrow> raise_io LFAttributeError)))
             (\<lambda>d. return_io
                \<lparr>AccountID = Some (ACCOUNT_ID env), Principal = Some account,
                 Table = Some \<lparr>t_DatabaseName = Some d, t_Name = None,
                               t_TableWildcard = Some ()\<rparr>,
                 TableWithColumns = None,
                 Permissions = Some [''SELECT'', ''DESCRIBE''],
                 PermissionsWithGrantOption = Some [''SELECT'', ''DESCRIBE''],
                 AccessType = Some ''grant''\<rparr>))"

text \<open>The \<open>TopicArn\<close> of \<open>publish_sns\<close>.\<close>

definition topic_arn :: "environ \<Rightarrow> string" where
  "topic_arn env =
     ''arn:aws:sns:'' @ REGION env @ '':'' @ ACCOUNT_ID env @ '':lakeformation-automation''"

text \<open>\<open>publish_sns\<close>: the attribute \<open>account_id\<close> is \<open>str(record['AccountID'])\<close>, read
  before the call is made.\<close>

definition publish_sns :: "service \<Rightarrow> environ \<Rightarrow> event \<Rightarrow> nat io" where
  "publish_sns svc env record' =
     (case AccountID record' of
        None \<Rightarrow> raise_io (KeyError ''AccountID'')
      | Some a \<Rightarrow>
          do_call svc (SNS_publish (topic_arn env) record' a))"

text \<open>The body of the inner loop of \<open>lambda_handler\<close>, for one \<open>perm_record\<close>.
  \<open>regex_obj[4]\<close> is evaluated only when the access type is \<open>grant\<close>, and raises
  \<open>TypeError\<close> when the principal did not match.\<close>

definition dispatch_record :: "service \<Rightarrow> environ \<Rightarrow> event \<Rightarrow> unit io" where
  "dispatch_record svc env perm_record =
     bind_io (get_Principal perm_record) (\<lambda>p.
     bind_io (get_AccessType perm_record) (\<lambda>a.
     bind_io (if a = ''grant''
              then (case arn_match p of
                      None \<Rightarrow> raise_io TypeError
                    | Some account \<Rightarrow> return_io (account \<noteq> ACCOUNT_ID env))
              else return_io False) (\<lambda>cross.
     bind_io (if cross
              then bind_io (generate_db_perm env perm_record) (\<lambda>db_perm.
                   bind_io (publish_sns svc env db_perm) (\<lambda>response.
                     if response = 200 then sleep 3 else return_io ()))
              else return_io ()) (\<lambda>u.
     bind_io (publish_sns svc env perm_record) (\<lambda>response. return_io ())))))"

text \<open>The loop over the records of one manifest.\<close>

fun dispatch_records :: "service \<Rightarrow> environ \<Rightarrow> event list \<Rightarrow> unit io" where
  "dispatch_records svc env [] = return_io ()"
| "dispatch_records svc env (perm_record # rest) =
     bind_io (dispatch_record svc env perm_record) (\<lambda>u. dispatch_records svc env rest)"

text \<open>\<open>lambda_handler\<close> of the dispatcher. Each delivered record names a manifest in the
  object store; \<open>read_s3_content\<close> is the parameter \<open>s3\<close>, which gives the manifest's
  \<open>Records\<close> or the error of the read. Reads are not recorded in the trace.\<close>

fun dispatcher_lambda_handler ::
  "service \<Rightarrow> environ \<Rightarrow> ('k \<Rightarrow> error + event list) \<Rightarrow> 'k list \<Rightarrow> unit io" where
  "dispatcher_lambda_handler svc env s3 [] = return_io ()"
| "dispatcher_lambda_handler svc env s3 (message # rest) =
     (case s3 message of
        Inl e \<Rightarrow> raise_io e
      | Inr s3_content \<Rightarrow>
          bind_io (dispatch_records svc env s3_content)
            (\<lambda>u. dispatcher_lambda_handler svc env s3 rest))"

section \<open>Vocabulary of the properties\<close>

text \<open>The database a record names: that of \<open>Table\<close> when the record has one, otherwise that
  of \<open>TableWithColumns\<close>.\<close>

definition selector_database :: "event \<Rightarrow> string option" where
  "selector_database ev =
     (case Table ev of
        Some t \<Rightarrow> t_DatabaseName t
      | None \<Rightarrow> (case TableWithColumns ev of Some c \<Rightarrow> c_DatabaseName c | None \<Rightarrow> None))"

text \<open>The selector in use lacks a name: a \<open>Table\<close> with neither \<open>Name\<close> nor \<open>TableWildcard\<close>, or
  a \<open>TableWithColumns\<close> without \<open>Name\<close> or with neither \<open>ColumnNames\<close> nor
  \<open>ColumnWildcard\<close>.\<close>

definition lacks_name :: "event \<Rightarrow> bool" where
  "lacks_name ev =
     (case Table ev of
        Some t \<Rightarrow> t_Name t = None \<and> t_TableWildcard t = None
      | None \<Rightarrow>
          (case TableWithColumns ev of
             Some c \<Rightarrow> c_Name c = None \<or> (c_ColumnNames c = None \<and> c_ColumnWildcard c = None)
           | None \<Rightarrow> False))"

text \<open>The DESCRIBE grant on a database, as each path sends it.\<close>

definition central_describe_call :: "string \<Rightarrow> string \<Rightarrow> call" where
  "central_describe_call p d =
     LF_grant_permissions p
       \<lparr>r_Database = Some \<lparr>dj_CatalogId = None, dj_Name = d\<rparr>,
        r_Table = None, r_TableWithColumns = None\<rparr> [''DESCRIBE''] None"

definition link_name :: "string \<Rightarrow> string" where
  "link_name d = (if str_in ''foundation_'' d then d else ''foundation_'' @ d)"

definition consumption_describe_call :: "environ \<Rightarrow> string \<Rightarrow> string \<Rightarrow> call" where
  "consumption_describe_call env p d =
     LF_grant_permissions p
       \<lparr>r_Database = Some \<lparr>dj_CatalogId = Some (ACCOUNT_ID env), dj_Name = link_name d\<rparr>,
        r_Table = None, r_TableWithColumns = None\<rparr> [''DESCRIBE''] None"

definition is_permission_call :: "call \<Rightarrow> bool" where
  "is_permission_call c =
     (case c of LF_grant_permissions p r ps g \<Rightarrow> True | LF_revoke_permissions p r ps \<Rightarrow> True
      | _ \<Rightarrow> False)"

text \<open>\<open>c\<close> is the DESCRIBE grant for the principal and the database of the record.\<close>

definition describes :: "(string \<Rightarrow> string \<Rightarrow> call) \<Rightarrow> event \<Rightarrow> call \<Rightarrow> bool" where
  "describes mk ev c =
     (case Principal ev of
        Some p \<Rightarrow> (case selector_database ev of Some d \<Rightarrow> c = mk p d | None \<Rightarrow> False)
      | None \<Rightarrow> False)"

text \<open>\<open>c\<close> is the fine-grained call of the record: a grant or a revoke, as its access type
  says, on a table resource, to its principal, of the permissions \<open>buildjson\<close> computes.\<close>

definition applies :: "string list \<Rightarrow> event \<Rightarrow> call \<Rightarrow> bool" where
  "applies perm_lit ev c =
     (case c of
        LF_grant_permissions p r ps g \<Rightarrow>
          Principal ev = Some p \<and> r_Database r = None \<and> perm_block perm_lit ev = Some ps \<and>
          map_option lower (AccessType ev) = Some ''grant''
      | LF_revoke_permissions p r ps \<Rightarrow>
          Principal ev = Some p \<and> r_Database r = None \<and> perm_block perm_lit ev = Some ps \<and>
          map_option lower (AccessType ev) = Some ''revoke''
      | _ \<Rightarrow> False)"

text \<open>A call of normalization: a catalog call or a grant of DESCRIBE on a database.\<close>

definition db_level :: "call \<Rightarrow> bool" where
  "db_level c =
     (case c of
        LF_grant_permissions p r ps g \<Rightarrow> r_Database r \<noteq> None \<and> ps = [''DESCRIBE'']
      | LF_revoke_permissions p r ps \<Rightarrow> False
      | _ \<Rightarrow> True)"

definition no_grant_option :: "call \<Rightarrow> bool" where
  "no_grant_option c = (case c of LF_grant_permissions p r ps g \<Rightarrow> g = None | _ \<Rightarrow> True)"

text \<open>What \<open>buildjson\<close> hands to the statements after the loop.\<close>

definition central_jsons :: "event \<Rightarrow> jsons \<Rightarrow> bool" where
  "central_jsons ev js = (case js of (p, t, c, perm, pg) \<Rightarrow>
      Principal ev = Some p \<and> perm = perm_block [''SELECT'', ''DESCRIBE''] ev \<and>
      pg = (case PermissionsWithGrantOption ev of
              Some g \<Rightarrow> Some [''SELECT'', ''DESCRIBE''] | None \<Rightarrow> None))"

definition consumption_jsons :: "event \<Rightarrow> jsons \<Rightarrow> bool" where
  "consumption_jsons ev js = (case js of (p, t, c, perm, pg) \<Rightarrow>
      Principal ev = Some p \<and> perm = perm_block [''SELECT''] ev)"

text \<open>Every call a computation adds to the trace satisfies \<open>P\<close>, whatever its result.\<close>

definition emits :: "(call \<Rightarrow> bool) \<Rightarrow> 'a io \<Rightarrow> bool" where
  "emits P m = (\<forall>tr. \<exists>new. snd (m tr) = tr @ new \<and> list_all P new)"

subsection \<open>The dispatcher's publishes, as the specification orders them\<close>

definition attr_is_AccountID :: "call \<Rightarrow> bool" where
  "attr_is_AccountID c =
     (case c of SNS_publish t m a \<Rightarrow> AccountID m = Some a | Sleep n \<Rightarrow> True | _ \<Rightarrow> False)"

text \<open>A grant whose principal parses as an ARN of another account than the central one.\<close>

definition is_cross_grant :: "environ \<Rightarrow> event \<Rightarrow> bool" where
  "is_cross_grant env r =
     (AccessType r = Some ''grant'' \<and>
      (case Principal r of
         Some p \<Rightarrow> (case arn_match p of Some a \<Rightarrow> a \<noteq> ACCOUNT_ID env | None \<Rightarrow> False)
       | None \<Rightarrow> False))"

text \<open>The DB-describe intent of a record: addressed to the central account, for the account
  of the record's principal, on every table of the record's database.\<close>

definition describe_intent :: "environ \<Rightarrow> event \<Rightarrow> event" where
  "describe_intent env r =
     \<lparr>AccountID = Some (ACCOUNT_ID env),
      Principal = (case Principal r of Some p \<Rightarrow> arn_match p | None \<Rightarrow> None),
      Table = Some \<lparr>t_DatabaseName = selector_database r, t_Name = None,
                    t_TableWildcard = Some ()\<rparr>,
      TableWithColumns = None,
      Permissions = Some [''SELECT'', ''DESCRIBE''],
      PermissionsWithGrantOption = Some [''SELECT'', ''DESCRIBE''],
      AccessType = Some ''grant''\<rparr>"

text \<open>The publish of a record; a record that is published has an \<open>AccountID\<close>.\<close>

definition publish_of :: "environ \<Rightarrow> event \<Rightarrow> call" where
  "publish_of env r =
     SNS_publish (topic_arn env) r (case AccountID r of Some a \<Rightarrow> a | None \<Rightarrow> [])"

text \<open>The calls for one record, by the words of the specification: for a cross-account
  grant the describe intent, then a pause of 3 seconds if that publish answered 200; then,
  in every case, the record itself.\<close>

definition record_calls :: "service \<Rightarrow> environ \<Rightarrow> event \<Rightarrow> call list \<Rightarrow> call list" where
  "record_calls svc env r tr =
     (if is_cross_grant env r
      then publish_of env (describe_intent env r) #
           (if svc tr (publish_of env (describe_intent env r)) = Inr 200 then [Sleep 3] else [])
      else []) @ [publish_of env r]"

fun expected_calls :: "service \<Rightarrow> environ \<Rightarrow> event list \<Rightarrow> call list \<Rightarrow> call list" where
  "expected_calls svc env [] tr = []"
| "expected_calls svc env (r # rs) tr =
     record_calls svc env r tr @ expected_calls svc env rs (tr @ record_calls svc env r tr)"

text \<open>The records of a manifest that was read.\<close>

definition manifest :: "('k \<Rightarrow> error + event list) \<Rightarrow> 'k \<Rightarrow> event list" where
  "manifest s3 m = (case s3 m of Inr rs \<Rightarrow> rs | Inl e \<Rightarrow> [])"

section \<open>Example inputs\<close>

text \<open>A permission service and a catalog that answer every call with status 200; a catalog
  in which no database exists yet.\<close>

definition ok_service :: service where
  "ok_service tr c = Inr 200"

definition fresh_catalog_service :: service where
  "fresh_catalog_service tr c =
     (case c of Glue_get_database n \<Rightarrow> Inl EntityNotFoundException | _ \<Rightarrow> Inr 200)"

definition example_env :: environ where
  "example_env = \<lparr>ACCOUNT_ID = ''111111111111'', REGION = ''us-east-1'',
                  FOUNDATION_ACCOUNT_ID = ''333333333333''\<rparr>"

definition example_topic :: string where
  "example_topic = ''arn:aws:sns:us-east-1:111111111111:lakeformation-automation''"

definition consumer :: string where
  "consumer = ''arn:aws:iam::222222222222:role/consumer''"

text \<open>The record of the specification's scenario A.\<close>

definition scenario_A :: event where
  "scenario_A =
     \<lparr>AccountID = None, Principal = Some ''arn:aws:iam::222222222222:role/consumer'',
      Table = Some \<lparr>t_DatabaseName = Some ''foundation_sales'', t_Name = None,
                    t_TableWildcard = None\<rparr>,
      TableWithColumns = None, Permissions = Some [''SELECT''],
      PermissionsWithGrantOption = None, AccessType = Some ''grant''\<rparr>"

definition all_tables :: table_sel where
  "all_tables = \<lparr>t_DatabaseName = Some ''foundation_sales'', t_Name = None,
                  t_TableWildcard = Some ()\<rparr>"

definition orders_table :: table_sel where
  "orders_table = \<lparr>t_DatabaseName = Some ''foundation_sales'', t_Name = Some ''orders'',
                    t_TableWildcard = None\<rparr>"

definition orders_columns :: twc_sel where
  "orders_columns = \<lparr>c_DatabaseName = Some ''foundation_sales'', c_Name = Some ''orders'',
                      c_ColumnNames = Some [''id''], c_ColumnWildcard = None\<rparr>"

definition describe_sales :: call where
  "describe_sales =
     LF_grant_permissions ''arn:aws:iam::222222222222:role/consumer''
       \<lparr>r_Database = Some \<lparr>dj_CatalogId = None, dj_Name = ''foundation_sales''\<rparr>,
        r_Table = None, r_TableWithColumns = None\<rparr> [''DESCRIBE''] None"

definition both_selectors :: event where
  "both_selectors =
     scenario_A\<lparr>Table := Some orders_table, TableWithColumns := Some orders_columns\<rparr>"

definition grant_orders :: event where
  "grant_orders = scenario_A\<lparr>Table := Some orders_table,
                    PermissionsWithGrantOption := Some [''ALL'']\<rparr>"

definition revoke_customers :: event where
  "revoke_customers =
     \<lparr>AccountID = None, Principal = Some ''arn:aws:iam::444444444444:role/analyst'',
      Table = None,
      TableWithColumns = Some \<lparr>c_DatabaseName = Some ''crm'', c_Name = Some ''customers'',
                                c_ColumnNames = None, c_ColumnWildcard = Some [''ssn'']\<rparr>,
      Permissions = Some [''SELECT''],
      PermissionsWithGrantOption = Some [''ALL''], AccessType = Some ''Revoke''\<rparr>"

definition revoke_call :: call where
  "revoke_call =
     LF_revoke_permissions ''arn:aws:iam::444444444444:role/analyst''
       \<lparr>r_Database = None, r_Table = None,
        r_TableWithColumns = Some \<lparr>cj_DatabaseName = ''crm'', cj_CatalogId = ''111111111111'',
           cj_Name = ''customers'', cj_ColumnNames = None,
           cj_ColumnWildcard = Some [''ssn'']\<rparr>\<rparr>
       [''SELECT'', ''DESCRIBE'']"

text \<open>Records of a manifest, which carry the account to route to, and the describe intent
  the dispatcher derives from them.\<close>

definition manifest_grant :: event where
  "manifest_grant = scenario_A\<lparr>AccountID := Some ''222222222222'', Table := Some orders_table\<rparr>"

definition manifest_revoke :: event where
  "manifest_revoke = manifest_grant\<lparr>AccessType := Some ''revoke''\<rparr>"

definition sales_intent :: event where
  "sales_intent =
     \<lparr>AccountID = Some ''111111111111'', Principal = Some ''222222222222'',
      Table = Some all_tables, TableWithColumns = None,
      Permissions = Some [''SELECT'', ''DESCRIBE''],
      PermissionsWithGrantOption = Some [''SELECT'', ''DESCRIBE''],
      AccessType = Some ''grant''\<rparr>"

definition one_manifest :: "string \<Rightarrow> error + event list" where
  "one_manifest key =
     (if key = ''manifest.json'' then Inr [manifest_grant] else Inl (KeyError key))"

section \<open>Evaluation lemmas\<close>

lemmas io_defs = bind_io_def return_io_def raise_io_def do_call_def

lemmas central_defs = central_lambda_handler_def central_apply_def central_buildjson_def
  resource_block_def central_grant_db_describe_def central_grant_lf_permissions_def
  revoke_lf_permissions_def perm_block_def perm_lookup_def build_resource_def

lemmas consumption_defs = consumption_lambda_handler_def consumption_apply_def
  consumption_buildjson_def resource_block_def consumption_grant_db_describe_def
  check_db_exist_def consumption_grant_lf_permissions_def revoke_lf_permissions_def
  perm_block_def perm_lookup_def build_resource_def

lemmas dispatch_defs = dispatch_record_def generate_db_perm_def publish_sns_def
  get_Principal_def get_AccessType_def sleep_def topic_arn_def

lemma split_sales: "py_split ''foundation_sales'' ''foundation_'' = [[], ''sales'']"
  by (simp add: py_split_def)

lemma strip_sales: "strip_foundation ''foundation_sales'' tr = (Inr ''sales'', tr)"
  by (simp add: strip_foundation_def split_sales index1_def return_io_def)

lemma strip_crm: "strip_foundation ''crm'' tr = (Inr ''crm'', tr)"
  by (simp add: strip_foundation_def return_io_def)

lemma lower_grant: "lower ''grant'' = ''grant''"
  by (simp add: lower_def lower_char_def)

lemma lower_Revoke: "lower ''Revoke'' = ''revoke''"
  by (simp add: lower_def lower_char_def)

lemma arn_consumer:
  "arn_match ''arn:aws:iam::222222222222:role/consumer'' = Some ''222222222222''"
  by (simp add: arn_match_def arn_rest_ok_def)

lemma scenario_A_facts:
  "Principal scenario_A = Some consumer"
  "selector_database scenario_A = Some ''foundation_sales''"
  "lacks_name scenario_A"
  by (simp_all add: scenario_A_def consumer_def selector_database_def lacks_name_def)

section \<open>Calls added to the trace\<close>

lemma emitsD: "emits P m \<Longrightarrow> m tr = (res, tr') \<Longrightarrow> \<exists>new. tr' = tr @ new \<and> list_all P new"
  by (metis emits_def snd_conv)

lemma emits_return: "emits P (return_io x)"
  by (simp add: emits_def return_io_def)

lemma emits_raise: "emits P (raise_io e)"
  by (simp add: emits_def raise_io_def)

lemma emits_do_call: "P c \<Longrightarrow> emits P (do_call svc c)"
  by (simp add: emits_def do_call_def)

lemma emits_sleep: "P (Sleep n) \<Longrightarrow> emits P (sleep n)"
  by (simp add: emits_def sleep_def)

lemma emits_bind:
  assumes m: "emits P m" and f: "\<And>x. emits P (f x)"
  shows "emits P (bind_io m f)"
  unfolding emits_def
proof
  fix tr
  obtain res tr1 where r: "m tr = (res, tr1)" by (cases "m tr")
  from emitsD [OF m r] obtain n1 where n1: "tr1 = tr @ n1" "list_all P n1" by blast
  show "\<exists>new. snd (bind_io m f tr) = tr @ new \<and> list_all P new"
  proof (cases res)
    case (Inl e)
    with r n1 show ?thesis by (simp add: bind_io_def)
  next
    case (Inr x)
    obtain res2 tr2 where r2: "f x tr1 = (res2, tr2)" by (cases "f x tr1")
    from emitsD [OF f r2] obtain n2 where n2: "tr2 = tr1 @ n2" "list_all P n2" by blast
    from Inr r r2 n1 n2 show ?thesis by (simp add: bind_io_def)
  qed
qed

lemma emits_index1: "emits P (index1 xs)"
  by (simp add: index1_def emits_return emits_raise split: list.splits)

lemma emits_strip: "emits P (strip_foundation d)"
  by (simp add: strip_foundation_def emits_index1 emits_return)

lemma emits_perm_lookup: "emits P (perm_lookup pj)"
  by (simp add: perm_lookup_def emits_return emits_raise split: option.splits)

lemma emits_resource_block:
  assumes "\<And>d. emits P (describe d)"
  shows "emits P (resource_block describe catalog ev)"
  unfolding resource_block_def
  by (auto intro!: emits_bind emits_return emits_raise emits_strip assms split: option.splits)

lemma emits_check_db_exist: "P (Glue_get_database d) \<Longrightarrow> emits P (check_db_exist svc d)"
  by (auto simp: emits_def check_db_exist_def do_call_def
        split: sum.splits error.splits aws_error.splits)

lemma emits_loop:
  assumes "\<And>ev. emits P (bj ev)"
  shows "emits P (buildjson_loop bj rs held)"
  by (induction rs arbitrary: held) (auto intro!: emits_bind emits_return assms)

text \<open>When the second part adds at most one call, all calls but the last are of the first.\<close>

lemma bind_butlast:
  assumes m: "emits P m"
    and f: "\<And>x t r t'. f x t = (r, t') \<Longrightarrow> t' = t \<or> (\<exists>c. t' = t @ [c])"
    and run: "bind_io m f tr = (res, tr')"
  shows "\<exists>new. tr' = tr @ new \<and> list_all P (butlast new)"
proof -
  obtain r1 t1 where r: "m tr = (r1, t1)" by (cases "m tr")
  from emitsD [OF m r] obtain n1 where n1: "t1 = tr @ n1" "list_all P n1" by blast
  have bl: "list_all P (butlast n1)"
    using n1(2) by (auto simp: list_all_iff dest: in_set_butlastD)
  show ?thesis
  proof (cases r1)
    case (Inl e)
    with r run have "tr' = t1" by (simp add: bind_io_def)
    with n1 bl show ?thesis by blast
  next
    case (Inr x)
    with r run have "f x t1 = (res, tr')" by (simp add: bind_io_def)
    from f [OF this] show ?thesis
    proof
      assume "tr' = t1"
      with n1 bl show ?thesis by blast
    next
      assume "\<exists>c. tr' = t1 @ [c]"
      then obtain c where "tr' = tr @ (n1 @ [c])" using n1 by auto
      moreover have "list_all P (butlast (n1 @ [c]))" using n1 by simp
      ultimately show ?thesis by blast
    qed
  qed
qed

section \<open>Splitting at the routing prefix\<close>

lemma split_str_nonempty: "split_str sep cur s \<noteq> []"
  by (induction sep cur s rule: split_str.induct) auto

lemma split_str_two:
  "sep \<noteq> [] \<Longrightarrow> str_in sep s \<Longrightarrow> \<exists>a b rest. split_str sep cur s = a # b # rest"
proof (induction sep cur s rule: split_str.induct)
  case (1 sep cur)
  then show ?case by simp
next
  case (2 sep cur c cs)
  show ?case
  proof (cases "prefix sep (c # cs)")
    case True
    obtain b rest where "split_str sep [] (drop (length sep) (c # cs)) = b # rest"
      using split_str_nonempty by (cases "split_str sep [] (drop (length sep) (c # cs))") auto
    with True 2(3) show ?thesis by simp
  next
    case False
    with 2(4) have "str_in sep cs" by simp
    with False 2(2,3) show ?thesis by simp
  qed
qed

lemma split_str_no_sep: "\<not> str_in sep s \<Longrightarrow> split_str sep cur s = [cur @ s]"
  by (induction sep cur s rule: split_str.induct) auto

lemma split_prefixed:
  "\<not> str_in ''foundation_'' b \<Longrightarrow> py_split (''foundation_'' @ b) ''foundation_'' = [[], b]"
  by (simp add: py_split_def split_str_no_sep)

text \<open>The index \<open>[1]\<close> is always in range where the code uses it.\<close>

lemma strip_foundation_ok: "\<exists>y. strip_foundation d tr = (Inr y, tr)"
proof (cases "str_in ''foundation_'' d")
  case True
  then obtain a b rest where "split_str ''foundation_'' [] d = a # b # rest"
    using split_str_two [of "''foundation_''" d "[]"] by auto
  with True show ?thesis
    by (simp add: strip_foundation_def py_split_def index1_def return_io_def)
next
  case False
  then show ?thesis by (simp add: strip_foundation_def return_io_def)
qed

lemma index1_link: "\<exists>y. index1 (py_split (link_name d) ''foundation_'') = return_io y"
proof -
  have "str_in ''foundation_'' (link_name d)"
    by (simp add: link_name_def)
  then obtain a b rest where "split_str ''foundation_'' [] (link_name d) = a # b # rest"
    using split_str_two [of "''foundation_''" "link_name d" "[]"] by auto
  then have "index1 (py_split (link_name d) ''foundation_'') = return_io b"
    by (simp add: py_split_def index1_def)
  then show ?thesis by blast
qed

section \<open>Normalization: what \<open>buildjson\<close> does\<close>

lemma perm_block_ceiling:
  "Permissions ev = Some ps \<Longrightarrow>
   perm_block perm_lit ev = Some (if set perm_lit \<subseteq> set ps then ps else perm_lit)"
  by (auto simp: perm_block_def filter_empty_conv)

lemma resource_block_table_wins:
  "Table ev = Some t \<Longrightarrow>
   resource_block describe catalog (ev\<lparr>TableWithColumns := None\<rparr>) =
   resource_block describe catalog ev"
  by (simp add: resource_block_def)

lemma resource_block_no_database:
  "selector_database ev = None \<Longrightarrow>
   resource_block describe catalog ev tr = (Inl LFAttributeError, tr)"
  by (auto simp: resource_block_def selector_database_def raise_io_def split: option.splits)

lemma resource_block_lacks_name:
  assumes "selector_database ev = Some d" and "lacks_name ev"
  shows "resource_block describe catalog ev tr =
           (case describe d tr of
              (Inl e, t) \<Rightarrow> (Inl e, t)
            | (Inr n, t) \<Rightarrow> (Inl LFAttributeError, t))"
proof -
  obtain res t where r: "describe d tr = (res, t)" by (cases "describe d tr")
  obtain y where y: "strip_foundation d t = (Inr y, t)" using strip_foundation_ok by blast
  from assms r y show ?thesis
    by (auto simp: resource_block_def selector_database_def lacks_name_def bind_io_def
          raise_io_def split: option.splits sum.splits)
qed

lemma resource_block_success:
  assumes "resource_block describe catalog ev tr = (Inr tc, tr')"
  shows "\<exists>d n. selector_database ev = Some d \<and> describe d tr = (Inr n, tr')"
proof -
  from assms obtain d where d: "selector_database ev = Some d"
    by (cases "selector_database ev") (auto simp: resource_block_no_database)
  obtain res t where r: "describe d tr = (res, t)" by (cases "describe d tr")
  obtain y where y: "strip_foundation d t = (Inr y, t)" using strip_foundation_ok by blast
  from assms d r y show ?thesis
    by (auto simp: resource_block_def selector_database_def bind_io_def raise_io_def
          return_io_def split: option.splits sum.splits)
qed

lemma central_describe_success:
  "central_grant_db_describe svc p d tr = (Inr n, tr') \<Longrightarrow>
   tr' = tr @ [central_describe_call p d]"
  by (auto simp: central_grant_db_describe_def central_describe_call_def do_call_def)

lemma link_name_unfold:
  "(if \<not> str_in ''foundation_'' d then ''foundation_'' @ d else d) = link_name d"
  by (simp add: link_name_def)

lemma consumption_describe_ends:
  assumes "consumption_grant_db_describe svc env p d tr = (Inr n, tr')"
  shows "\<exists>mid. tr' = tr @ mid @ [consumption_describe_call env p d] \<and>
               list_all (\<lambda>c. \<not> is_permission_call c) mid"
  using assms
  by (auto simp: consumption_grant_db_describe_def consumption_describe_call_def link_name_def
        check_db_exist_def bind_io_def do_call_def return_io_def raise_io_def index1_def Let_def
        is_permission_call_def
        split: sum.splits if_splits list.splits error.splits aws_error.splits)

lemma consumption_describe_aws_error:
  assumes "consumption_grant_db_describe svc env p d tr = (Inl e, t)"
  shows "\<exists>a. e = Aws a"
proof -
  obtain y where y: "index1 (py_split (link_name d) ''foundation_'') = return_io y"
    using index1_link by blast
  from assms show ?thesis
    unfolding consumption_grant_db_describe_def link_name_unfold Let_def y
    by (auto simp: check_db_exist_def bind_io_def do_call_def return_io_def
          split: sum.splits if_splits error.splits aws_error.splits)
qed

lemma central_buildjson_lacks_name:
  assumes "Principal ev = Some p" and "selector_database ev = Some d" and "lacks_name ev"
  shows "central_buildjson svc env ev tr =
           ((case svc tr (central_describe_call p d) of
               Inl e \<Rightarrow> Inl (Aws e) | Inr n \<Rightarrow> Inl LFAttributeError),
            tr @ [central_describe_call p d])"
  using assms(1)
  by (simp add: central_buildjson_def bind_io_def resource_block_lacks_name [OF assms(2,3)]
        central_grant_db_describe_def central_describe_call_def do_call_def
        split: sum.splits)

lemma consumption_buildjson_lacks_name:
  assumes "Principal ev = Some p" and "selector_database ev = Some d" and "lacks_name ev"
  shows "consumption_buildjson svc env ev tr =
           (case consumption_grant_db_describe svc env p d tr of
              (Inl e, t) \<Rightarrow> (Inl e, t) | (Inr n, t) \<Rightarrow> (Inl LFAttributeError, t))"
  using assms(1)
  by (simp add: consumption_buildjson_def bind_io_def resource_block_lacks_name [OF assms(2,3)]
        split: sum.splits prod.splits)

lemma central_buildjson_success:
  assumes "central_buildjson svc env ev tr = (Inr (p, t, c, perm, pg), tr')"
  shows "\<exists>d. Principal ev = Some p \<and> selector_database ev = Some d \<and>
             tr' = tr @ [central_describe_call p d] \<and>
             perm = perm_block [''SELECT'', ''DESCRIBE''] ev \<and>
             pg = (case PermissionsWithGrantOption ev of
                     Some g \<Rightarrow> Some [''SELECT'', ''DESCRIBE''] | None \<Rightarrow> None)"
proof -
  from assms have pr: "Principal ev = Some p"
    by (auto simp: central_buildjson_def bind_io_def raise_io_def return_io_def
          split: option.splits prod.splits sum.splits)
  with assms obtain tc where
    rb: "resource_block (central_grant_db_describe svc p) (ACCOUNT_ID env) ev tr = (Inr tc, tr')"
    and rest: "perm = perm_block [''SELECT'', ''DESCRIBE''] ev"
      "pg = (case PermissionsWithGrantOption ev of
               Some g \<Rightarrow> Some [''SELECT'', ''DESCRIBE''] | None \<Rightarrow> None)"
    by (auto simp: central_buildjson_def bind_io_def return_io_def
          split: prod.splits sum.splits)
  from resource_block_success [OF rb] obtain d n where
    "selector_database ev = Some d" "central_grant_db_describe svc p d tr = (Inr n, tr')" by blast
  with pr rest central_describe_success show ?thesis by blast
qed

lemma consumption_buildjson_success:
  assumes "consumption_buildjson svc env ev tr = (Inr (p, t, c, perm, pg), tr')"
  shows "\<exists>d mid. Principal ev = Some p \<and> selector_database ev = Some d \<and>
             tr' = tr @ mid @ [consumption_describe_call env p d] \<and>
             list_all (\<lambda>c. \<not> is_permission_call c) mid \<and>
             perm = perm_block [''SELECT''] ev"
proof -
  from assms have pr: "Principal ev = Some p"
    by (auto simp: consumption_buildjson_def bind_io_def raise_io_def return_io_def
          split: option.splits prod.splits sum.splits)
  with assms obtain tc where
    rb: "resource_block (consumption_grant_db_describe svc env p) (FOUNDATION_ACCOUNT_ID env) ev tr
           = (Inr tc, tr')"
    and rest: "perm = perm_block [''SELECT''] ev"
    by (auto simp: consumption_buildjson_def bind_io_def return_io_def
          split: prod.splits sum.splits)
  from resource_block_success [OF rb] obtain d n where
    d: "selector_database ev = Some d"
       "consumption_grant_db_describe svc env p d tr = (Inr n, tr')" by blast
  from consumption_describe_ends [OF d(2)] pr d(1) rest show ?thesis by blast
qed

lemma central_step:
  assumes "central_buildjson svc env ev tr = (Inr js, tr')"
  shows "\<exists>new c. tr' = tr @ new \<and> filter (\<lambda>c. True) new = [c] \<and>
           describes central_describe_call ev c \<and> central_jsons ev js"
proof -
  obtain p t c perm pg where js: "js = (p, t, c, perm, pg)" by (cases js)
  from central_buildjson_success [OF assms [unfolded js]] js show ?thesis
    by (auto simp: describes_def central_jsons_def)
qed

lemma consumption_step:
  assumes "consumption_buildjson svc env ev tr = (Inr js, tr')"
  shows "\<exists>new c. tr' = tr @ new \<and> filter is_permission_call new = [c] \<and>
           describes (consumption_describe_call env) ev c \<and> consumption_jsons ev js"
proof -
  obtain p t c perm pg where js: "js = (p, t, c, perm, pg)" by (cases js)
  from consumption_buildjson_success [OF assms [unfolded js]] obtain d mid where
    h: "Principal ev = Some p" "selector_database ev = Some d"
       "tr' = tr @ mid @ [consumption_describe_call env p d]"
       "list_all (\<lambda>c. \<not> is_permission_call c) mid" "perm = perm_block [''SELECT''] ev" by blast
  from h(4) have "filter is_permission_call mid = []"
    by (simp add: list_all_iff filter_empty_conv)
  with h js show ?thesis
    by (auto simp: describes_def consumption_jsons_def consumption_describe_call_def
          is_permission_call_def)
qed

section \<open>The loop over a batch\<close>

lemma buildjson_loop_success:
  assumes step: "\<And>ev tr js tr'. bj ev tr = (Inr js, tr') \<Longrightarrow>
            \<exists>new c. tr' = tr @ new \<and> filter keep new = [c] \<and> D ev c \<and> Q ev js"
    and run: "buildjson_loop bj rs held tr = (Inr h, tr')"
  shows "\<exists>new. tr' = tr @ new \<and> list_all2 D rs (filter keep new) \<and>
           (rs = [] \<longrightarrow> h = held) \<and>
           (rs \<noteq> [] \<longrightarrow> (\<exists>js. h = Some (last rs, js) \<and> Q (last rs) js))"
  using run
proof (induction rs arbitrary: held tr)
  case Nil
  then show ?case by (simp add: return_io_def)
next
  case (Cons ev rs)
  from Cons.prems obtain js t1 where
    b: "bj ev tr = (Inr js, t1)" and
    l: "buildjson_loop bj rs (Some (ev, js)) t1 = (Inr h, tr')"
    by (auto simp: bind_io_def split: prod.splits sum.splits)
  from step [OF b] obtain n1 c where
    n1: "t1 = tr @ n1" "filter keep n1 = [c]" "D ev c" "Q ev js" by blast
  from Cons.IH [OF l] obtain n2 where
    n2: "tr' = t1 @ n2" "list_all2 D rs (filter keep n2)"
        "rs = [] \<longrightarrow> h = Some (ev, js)"
        "rs \<noteq> [] \<longrightarrow> (\<exists>js. h = Some (last rs, js) \<and> Q (last rs) js)" by blast
  have "tr' = tr @ (n1 @ n2)" using n1 n2 by simp
  moreover have "list_all2 D (ev # rs) (filter keep (n1 @ n2))" using n1 n2 by simp
  moreover have "\<exists>js. h = Some (last (ev # rs), js) \<and> Q (last (ev # rs)) js"
    using n1 n2 by (cases "rs = []") auto
  ultimately show ?case by blast
qed

section \<open>The account-path handlers\<close>

lemma central_apply_one_call:
  "central_apply svc held t = (r, t') \<Longrightarrow> t' = t \<or> (\<exists>c. t' = t @ [c])"
  by (auto simp: central_apply_def bind_io_def raise_io_def return_io_def do_call_def
        central_grant_lf_permissions_def revoke_lf_permissions_def perm_lookup_def
        split: option.splits sum.splits if_splits prod.splits)

lemma consumption_apply_one_call:
  "consumption_apply svc held t = (r, t') \<Longrightarrow> t' = t \<or> (\<exists>c. t' = t @ [c])"
  by (auto simp: consumption_apply_def bind_io_def raise_io_def return_io_def do_call_def
        consumption_grant_lf_permissions_def revoke_lf_permissions_def perm_lookup_def
        split: option.splits sum.splits if_splits prod.splits)

lemma central_apply_success:
  assumes "central_apply svc (Some (ev, (p, t, c, perm, pg))) t1 = (Inr (), tr')"
    and "central_jsons ev (p, t, c, perm, pg)"
  shows "\<exists>k. tr' = t1 @ [k] \<and> applies [''SELECT'', ''DESCRIBE''] ev k \<and>
           (\<forall>q r ps g. k = LF_grant_permissions q r ps g \<longrightarrow>
              g = Some (case PermissionsWithGrantOption ev of
                          Some x \<Rightarrow> [''SELECT'', ''DESCRIBE''] | None \<Rightarrow> []))"
  using assms
  by (auto simp: central_apply_def central_jsons_def applies_def bind_io_def raise_io_def
        return_io_def do_call_def central_grant_lf_permissions_def revoke_lf_permissions_def
        perm_lookup_def build_resource_def
        split: option.splits sum.splits if_splits prod.splits)

lemma consumption_apply_success:
  assumes "consumption_apply svc (Some (ev, (p, t, c, perm, pg))) t1 = (Inr (), tr')"
    and "consumption_jsons ev (p, t, c, perm, pg)"
  shows "\<exists>k. tr' = t1 @ [k] \<and> applies [''SELECT''] ev k"
  using assms
  by (auto simp: consumption_apply_def consumption_jsons_def applies_def bind_io_def
        raise_io_def return_io_def do_call_def consumption_grant_lf_permissions_def
        revoke_lf_permissions_def perm_lookup_def build_resource_def
        split: option.splits sum.splits if_splits prod.splits)

lemma central_handler_success:
  assumes "central_lambda_handler svc env rs tr = (Inr (), tr')"
  shows "rs \<noteq> [] \<and> (\<exists>new c. tr' = tr @ new @ [c] \<and>
           list_all2 (describes central_describe_call) rs new \<and>
           applies [''SELECT'', ''DESCRIBE''] (last rs) c \<and>
           (\<forall>p r ps g. c = LF_grant_permissions p r ps g \<longrightarrow>
              g = Some (case PermissionsWithGrantOption (last rs) of
                          Some x \<Rightarrow> [''SELECT'', ''DESCRIBE''] | None \<Rightarrow> [])))"
proof -
  from assms obtain h t1 where
    l: "buildjson_loop (central_buildjson svc env) rs None tr = (Inr h, t1)" and
    a: "central_apply svc h t1 = (Inr (), tr')"
    by (auto simp: central_lambda_handler_def bind_io_def split: prod.splits sum.splits)
  have step: "\<And>ev tr js tr'. central_buildjson svc env ev tr = (Inr js, tr') \<Longrightarrow>
      \<exists>new c. tr' = tr @ new \<and> filter (\<lambda>c. True) new = [c] \<and>
           describes central_describe_call ev c \<and> central_jsons ev js"
    by (rule central_step)
  from buildjson_loop_success [where keep = "\<lambda>c. True" and D = "describes central_describe_call"
      and Q = central_jsons, OF step l]
  obtain new where
    n: "t1 = tr @ new" "list_all2 (describes central_describe_call) rs new"
       "rs = [] \<longrightarrow> h = None"
       "rs \<noteq> [] \<longrightarrow> (\<exists>js. h = Some (last rs, js) \<and> central_jsons (last rs) js)"
    by auto
  from a n(3) have ne: "rs \<noteq> []"
    by (auto simp: central_apply_def raise_io_def)
  with n(4) obtain p t c perm pg where
    h: "h = Some (last rs, (p, t, c, perm, pg))" and
    q: "central_jsons (last rs) (p, t, c, perm, pg)"
    by (metis prod_cases5)
  from central_apply_success [OF a [unfolded h] q] n ne show ?thesis by auto
qed

lemma consumption_handler_success:
  assumes "consumption_lambda_handler svc env rs tr = (Inr (), tr')"
  shows "rs \<noteq> [] \<and> (\<exists>new c. tr' = tr @ new @ [c] \<and>
           list_all2 (describes (consumption_describe_call env)) rs
             (filter is_permission_call new) \<and>
           applies [''SELECT''] (last rs) c)"
proof -
  from assms obtain h t1 where
    l: "buildjson_loop (consumption_buildjson svc env) rs None tr = (Inr h, t1)" and
    a: "consumption_apply svc h t1 = (Inr (), tr')"
    by (auto simp: consumption_lambda_handler_def bind_io_def split: prod.splits sum.splits)
  have step: "\<And>ev tr js tr'. consumption_buildjson svc env ev tr = (Inr js, tr') \<Longrightarrow>
      \<exists>new c. tr' = tr @ new \<and> filter is_permission_call new = [c] \<and>
           describes (consumption_describe_call env) ev c \<and> consumption_jsons ev js"
    by (rule consumption_step)
  from buildjson_loop_success [where keep = is_permission_call
      and D = "describes (consumption_describe_call env)"
      and Q = consumption_jsons, OF step l]
  obtain new where
    n: "t1 = tr @ new"
       "list_all2 (describes (consumption_describe_call env)) rs (filter is_permission_call new)"
       "rs = [] \<longrightarrow> h = None"
       "rs \<noteq> [] \<longrightarrow> (\<exists>js. h = Some (last rs, js) \<and> consumption_jsons (last rs) js)"
    by auto
  from a n(3) have ne: "rs \<noteq> []"
    by (auto simp: consumption_apply_def raise_io_def)
  with n(4) obtain p t c perm pg where
    h: "h = Some (last rs, (p, t, c, perm, pg))" and
    q: "consumption_jsons (last rs) (p, t, c, perm, pg)"
    by (metis prod_cases5)
  from consumption_apply_success [OF a [unfolded h] q] n ne show ?thesis by auto
qed

lemma emits_central_buildjson: "emits db_level (central_buildjson svc env ev)"
  unfolding central_buildjson_def central_grant_db_describe_def
  by (auto intro!: emits_bind emits_return emits_raise emits_resource_block emits_do_call
        simp: db_level_def split: option.splits)

lemma emits_consumption_describe:
  "emits (\<lambda>c. db_level c \<and> no_grant_option c) (consumption_grant_db_describe svc env p d)"
  unfolding consumption_grant_db_describe_def Let_def
  by (intro emits_bind emits_check_db_exist emits_do_call)
     (auto intro!: emits_bind emits_return emits_index1 emits_do_call
        simp: db_level_def no_grant_option_def)

lemma emits_consumption_buildjson:
  "emits (\<lambda>c. db_level c \<and> no_grant_option c) (consumption_buildjson svc env ev)"
  unfolding consumption_buildjson_def
  by (auto intro!: emits_bind emits_return emits_raise emits_resource_block
        emits_consumption_describe split: option.splits)

lemma emits_weaken: "emits P m \<Longrightarrow> (\<And>c. P c \<Longrightarrow> Q c) \<Longrightarrow> emits Q m"
  unfolding emits_def list_all_iff by metis

lemma emits_consumption_apply: "emits no_grant_option (consumption_apply svc held)"
  unfolding consumption_apply_def consumption_grant_lf_permissions_def revoke_lf_permissions_def
  by (auto intro!: emits_bind emits_return emits_raise emits_perm_lookup emits_do_call
        simp: no_grant_option_def split: option.splits)

lemma emits_consumption_handler:
  "emits no_grant_option (consumption_lambda_handler svc env rs)"
  unfolding consumption_lambda_handler_def
  by (intro emits_bind emits_loop emits_consumption_apply
        emits_weaken [OF emits_consumption_buildjson]) simp

lemma central_handler_butlast:
  assumes "central_lambda_handler svc env rs tr = (res, tr')"
  shows "\<exists>new. tr' = tr @ new \<and> list_all db_level (butlast new)"
proof (rule bind_butlast [OF _ _ assms [unfolded central_lambda_handler_def]])
  show "emits db_level (buildjson_loop (central_buildjson svc env) rs None)"
    by (rule emits_loop) (rule emits_central_buildjson)
qed (rule central_apply_one_call)

lemma consumption_handler_butlast:
  assumes "consumption_lambda_handler svc env rs tr = (res, tr')"
  shows "\<exists>new. tr' = tr @ new \<and> list_all db_level (butlast new)"
proof (rule bind_butlast [OF _ _ assms [unfolded consumption_lambda_handler_def]])
  show "emits db_level (buildjson_loop (consumption_buildjson svc env) rs None)"
    by (rule emits_loop) (rule emits_weaken [OF emits_consumption_buildjson], simp)
qed (rule consumption_apply_one_call)

section \<open>The dispatcher\<close>

lemma generate_db_perm_success:
  assumes "generate_db_perm env r tr = (Inr d, tr')"
  shows "tr' = tr \<and> d = describe_intent env r \<and> selector_database r \<noteq> None \<and>
         (\<exists>p a. Principal r = Some p \<and> arn_match p = Some a)"
  using assms
  by (auto simp: generate_db_perm_def get_Principal_def describe_intent_def selector_database_def
        bind_io_def raise_io_def return_io_def split: option.splits sum.splits prod.splits)

lemma generate_db_perm_trace: "generate_db_perm env r tr = (g, t1) \<Longrightarrow> t1 = tr"
  by (auto simp: generate_db_perm_def get_Principal_def bind_io_def raise_io_def return_io_def
        split: option.splits sum.splits prod.splits)

lemma dispatch_record_prefix:
  assumes "dispatch_record svc env r tr = (res, tr')"
  shows "\<exists>new. tr' = tr @ new \<and> prefix new (record_calls svc env r tr) \<and>
           (res = Inr () \<longrightarrow> new = record_calls svc env r tr)"
proof (cases "is_cross_grant env r")
  case False
  with assms show ?thesis
    by (auto simp: dispatch_record_def record_calls_def is_cross_grant_def publish_of_def
          publish_sns_def get_Principal_def get_AccessType_def
          bind_io_def raise_io_def return_io_def do_call_def
          split: option.splits sum.splits prod.splits if_splits)
next
  case True
  then obtain p a where pa: "Principal r = Some p" "arn_match p = Some a" "a \<noteq> ACCOUNT_ID env"
    "AccessType r = Some ''grant''"
    by (auto simp: is_cross_grant_def split: option.splits)
  obtain g t1 where g: "generate_db_perm env r tr = (g, t1)"
    by (cases "generate_db_perm env r tr")
  from generate_db_perm_trace [OF g] have t1: "t1 = tr" .
  show ?thesis
  proof (cases g)
    case (Inl e)
    with assms pa g t1 show ?thesis
      by (auto simp: dispatch_record_def get_Principal_def get_AccessType_def
          bind_io_def raise_io_def return_io_def)
  next
    case (Inr d)
    with g generate_db_perm_success have d: "d = describe_intent env r" by blast
    have acc: "AccountID (describe_intent env r) = Some (ACCOUNT_ID env)"
      by (simp add: describe_intent_def)
    from assms pa g t1 d acc True Inr show ?thesis
      by (auto simp: dispatch_record_def record_calls_def publish_of_def
          publish_sns_def get_Principal_def get_AccessType_def sleep_def
          bind_io_def raise_io_def return_io_def do_call_def
          split: option.splits sum.splits prod.splits if_splits)
  qed
qed

lemma dispatch_records_prefix:
  "dispatch_records svc env rs tr = (res, tr') \<Longrightarrow>
     \<exists>new. tr' = tr @ new \<and> prefix new (expected_calls svc env rs tr) \<and>
           (res = Inr () \<longrightarrow> new = expected_calls svc env rs tr)"
proof (induction rs arbitrary: tr)
  case Nil
  then show ?case by (simp add: return_io_def)
next
  case (Cons r rs)
  obtain r1 t1 where a: "dispatch_record svc env r tr = (r1, t1)"
    by (cases "dispatch_record svc env r tr")
  from dispatch_record_prefix [OF a] obtain n1 where
    n1: "t1 = tr @ n1" "prefix n1 (record_calls svc env r tr)"
        "r1 = Inr () \<longrightarrow> n1 = record_calls svc env r tr" by blast
  show ?case
  proof (cases r1)
    case (Inl e)
    with a Cons.prems have "tr' = t1" "res = Inl e" by (auto simp: bind_io_def)
    with n1 show ?thesis by (auto intro: prefix_order.trans)
  next
    case (Inr u)
    with a Cons.prems have b: "dispatch_records svc env rs t1 = (res, tr')"
      by (simp add: bind_io_def)
    from Inr n1 have e: "n1 = record_calls svc env r tr" by simp
    from Cons.IH [OF b] obtain n2 where
      n2: "tr' = t1 @ n2" "prefix n2 (expected_calls svc env rs t1)"
        "res = Inr () \<longrightarrow> n2 = expected_calls svc env rs t1" by blast
    from n1 n2 e show ?thesis by auto
  qed
qed

lemma dispatch_records_success:
  "dispatch_records svc env rs tr = (Inr (), tr') \<Longrightarrow> tr' = tr @ expected_calls svc env rs tr"
  using dispatch_records_prefix [of svc env rs tr "Inr ()" tr'] by auto

lemma expected_calls_append:
  "expected_calls svc env (xs @ ys) tr =
     expected_calls svc env xs tr @ expected_calls svc env ys (tr @ expected_calls svc env xs tr)"
  by (induction xs arbitrary: tr) simp_all

lemma dispatcher_success:
  "dispatcher_lambda_handler svc env s3 ms tr = (Inr (), tr') \<Longrightarrow>
     tr' = tr @ expected_calls svc env (concat (map (manifest s3) ms)) tr"
proof (induction ms arbitrary: tr)
  case Nil
  then show ?case by (simp add: return_io_def)
next
  case (Cons m ms)
  from Cons.prems obtain rs where rs: "s3 m = Inr rs"
    by (cases "s3 m") (auto simp: raise_io_def)
  with Cons.prems obtain t1 where
    a: "dispatch_records svc env rs tr = (Inr (), t1)" and
    b: "dispatcher_lambda_handler svc env s3 ms t1 = (Inr (), tr')"
    by (auto simp: bind_io_def split: sum.splits prod.splits)
  from dispatch_records_success [OF a] Cons.IH [OF b] rs show ?case
    by (simp add: manifest_def expected_calls_append)
qed

lemma emits_publish: "emits attr_is_AccountID (publish_sns svc env r)"
  by (auto simp: publish_sns_def attr_is_AccountID_def intro!: emits_raise emits_do_call
        split: option.splits)

lemma emits_generate: "emits P (generate_db_perm env r)"
  unfolding generate_db_perm_def get_Principal_def
  by (auto intro!: emits_bind emits_return emits_raise split: option.splits)

lemma emits_dispatch_record: "emits attr_is_AccountID (dispatch_record svc env r)"
  unfolding dispatch_record_def get_Principal_def get_AccessType_def
  by (auto intro!: emits_bind emits_return emits_raise emits_publish emits_generate emits_sleep
        simp: attr_is_AccountID_def split: option.splits)

lemma emits_dispatch_records: "emits attr_is_AccountID (dispatch_records svc env rs)"
  by (induction rs) (auto intro!: emits_bind emits_return emits_dispatch_record)

lemma emits_dispatcher: "emits attr_is_AccountID (dispatcher_lambda_handler svc env s3 ms)"
  by (induction ms)
     (auto intro!: emits_bind emits_return emits_raise emits_dispatch_records split: sum.splits)

section \<open>C1: the permission ceiling\<close>

text \<open>C1. The claim: the permission set that \<open>buildjson\<close> emits is exactly the ceiling of the
  path, also when the input is a superset of the ceiling. The code replaces the input only
  when the ceiling is not contained in it (\<open>perm_block_ceiling\<close>), so a superset is passed on
  as it is: a record asking for SELECT, DESCRIBE and DROP on the central path ends in a grant
  of all three.\<close>

theorem central_superset_passes_through:
  "central_lambda_handler ok_service example_env
     [scenario_A\<lparr>Table := Some orders_table,
                 Permissions := Some [''SELECT'', ''DESCRIBE'', ''DROP'']\<rparr>] [] =
     (Inr (),
      [describe_sales,
       LF_grant_permissions ''arn:aws:iam::222222222222:role/consumer''
         \<lparr>r_Database = None,
          r_Table = Some \<lparr>tj_DatabaseName = ''sales'', tj_CatalogId = ''111111111111'',
                          tj_Name = Some ''orders'', tj_TableWildcard = None\<rparr>,
          r_TableWithColumns = None\<rparr>
         [''SELECT'', ''DESCRIBE'', ''DROP''] (Some [])])"
  by (simp add: central_defs scenario_A_def io_defs ok_service_def strip_sales
      orders_table_def lower_grant example_env_def describe_sales_def)

section \<open>C2: scenario A on the central path\<close>

text \<open>C2, as stated, fails: the record of scenario A has a \<open>Table\<close> with neither \<open>Name\<close> nor
  \<open>TableWildcard\<close>, so \<open>buildjson\<close> raises \<open>LFAttributeError\<close> once the DESCRIBE grant has
  been made, and that grant names the database as received, \<open>foundation_sales\<close>. No
  fine-grained grant is made.\<close>

theorem scenario_A_is_rejected:
  "central_lambda_handler ok_service example_env [scenario_A] [] =
     (Inl LFAttributeError,
      [LF_grant_permissions ''arn:aws:iam::222222222222:role/consumer''
         \<lparr>r_Database = Some \<lparr>dj_CatalogId = None, dj_Name = ''foundation_sales''\<rparr>,
          r_Table = None, r_TableWithColumns = None\<rparr> [''DESCRIBE''] None])"
  by (simp add: central_defs scenario_A_def io_defs ok_service_def strip_sales)

text \<open>C2, amended: with \<open>TableWildcard\<close> added to the \<open>Table\<close> of scenario A, the central
  path grants DESCRIBE on the database \<open>foundation_sales\<close> and then makes the fine-grained
  grant with \<open>Permissions = [SELECT, DESCRIBE]\<close> on the table resource whose \<open>DatabaseName\<close>
  is \<open>sales\<close>, the prefix stripped.\<close>

theorem scenario_A_with_wildcard:
  "central_lambda_handler ok_service example_env [scenario_A\<lparr>Table := Some all_tables\<rparr>] [] =
     (Inr (),
      [LF_grant_permissions ''arn:aws:iam::222222222222:role/consumer''
         \<lparr>r_Database = Some \<lparr>dj_CatalogId = None, dj_Name = ''foundation_sales''\<rparr>,
          r_Table = None, r_TableWithColumns = None\<rparr> [''DESCRIBE''] None,
       LF_grant_permissions ''arn:aws:iam::222222222222:role/consumer''
         \<lparr>r_Database = None,
          r_Table = Some \<lparr>tj_DatabaseName = ''sales'', tj_CatalogId = ''111111111111'',
                          tj_Name = None, tj_TableWildcard = Some ()\<rparr>,
          r_TableWithColumns = None\<rparr>
         [''SELECT'', ''DESCRIBE''] (Some [])])"
  by (simp add: central_defs scenario_A_def io_defs ok_service_def strip_sales
      all_tables_def lower_grant example_env_def)

section \<open>C3: the routing attribute\<close>

lemma dispatch_one_example:
  "dispatch_records ok_service example_env [manifest_grant] [] =
     (Inr (),
      [SNS_publish example_topic sales_intent ''111111111111'',
       Sleep 3,
       SNS_publish example_topic manifest_grant ''222222222222''])"
  by (simp add: dispatch_defs manifest_grant_def scenario_A_def
      orders_table_def all_tables_def sales_intent_def example_topic_def example_env_def
      ok_service_def io_defs arn_consumer)

lemma dispatcher_example:
  "dispatcher_lambda_handler ok_service example_env one_manifest [''manifest.json''] [] =
     (Inr (),
      [SNS_publish example_topic sales_intent ''111111111111'',
       Sleep 3,
       SNS_publish example_topic manifest_grant ''222222222222''])"
  by (simp add: one_manifest_def dispatch_one_example bind_io_def return_io_def
      del: dispatch_records.simps)

text \<open>C3, as stated, fails: for a grant to a principal of account 222222222222, the
  describe intent is published with the attribute 111111111111, the central account, which
  is the \<open>AccountID\<close> that \<open>generate_db_perm\<close> writes into the intent; the account parsed from
  the ARN is the intent's \<open>Principal\<close>.\<close>

theorem describe_intent_routed_to_central:
  "dispatch_records ok_service example_env [manifest_grant] [] =
     (Inr (),
      [SNS_publish example_topic sales_intent ''111111111111'',
       Sleep 3,
       SNS_publish example_topic manifest_grant ''222222222222'']) \<and>
   Principal manifest_grant = Some ''arn:aws:iam::222222222222:role/consumer'' \<and>
   arn_match ''arn:aws:iam::222222222222:role/consumer'' = Some ''222222222222'' \<and>
   Principal sales_intent = Some ''222222222222''"
proof (intro conjI)
  show "dispatch_records ok_service example_env [manifest_grant] [] =
     (Inr (),
      [SNS_publish example_topic sales_intent ''111111111111'',
       Sleep 3,
       SNS_publish example_topic manifest_grant ''222222222222''])"
    by (rule dispatch_one_example)
qed (simp_all add: arn_consumer manifest_grant_def scenario_A_def sales_intent_def)

text \<open>C3, amended: every message the dispatcher publishes carries as its routing attribute
  the \<open>AccountID\<close> field of the record published, in every run, failed or not. For the
  describe intent that field is the central account id of the environment, and the intent's
  \<open>Principal\<close> is the account id parsed from the record's principal ARN.\<close>

theorem routing_attribute_is_AccountID_field:
  "(dispatcher_lambda_handler svc env s3 ms tr = (res, tr') \<longrightarrow>
      (\<exists>new. tr' = tr @ new \<and> list_all attr_is_AccountID new)) \<and>
   (generate_db_perm env r tr = (Inr d, tr2) \<longrightarrow>
      AccountID d = Some (ACCOUNT_ID env) \<and>
      (\<exists>p. Principal r = Some p \<and> Principal d = arn_match p))"
proof (intro conjI impI)
  assume "dispatcher_lambda_handler svc env s3 ms tr = (res, tr')"
  with emits_dispatcher show "\<exists>new. tr' = tr @ new \<and> list_all attr_is_AccountID new"
    by (rule emitsD)
next
  assume g: "generate_db_perm env r tr = (Inr d, tr2)"
  from generate_db_perm_success [OF g]
  show "AccountID d = Some (ACCOUNT_ID env)"
    by (simp add: describe_intent_def)
  from generate_db_perm_success [OF g]
  show "\<exists>p. Principal r = Some p \<and> Principal d = arn_match p"
    by (auto simp: describe_intent_def)
qed

text \<open>A run of C3's amended statement: one manifest with one cross-account grant.\<close>

theorem routing_attribute_witness:
  "dispatcher_lambda_handler ok_service example_env one_manifest [''manifest.json''] [] =
     (Inr (),
      [SNS_publish example_topic sales_intent ''111111111111'',
       Sleep 3,
       SNS_publish example_topic manifest_grant ''222222222222'']) \<and>
   list_all attr_is_AccountID
      [SNS_publish example_topic sales_intent ''111111111111'',
       Sleep 3,
       SNS_publish example_topic manifest_grant ''222222222222'']"
  using routing_attribute_is_AccountID_field [THEN conjunct1, rule_format, OF dispatcher_example]
    dispatcher_example
  by simp

section \<open>C4: a record with both selectors\<close>

text \<open>C4, as stated, fails: a record with both \<open>Table\<close> and \<open>TableWithColumns\<close> is not
  rejected. The central handler grants DESCRIBE on its database and then makes the
  fine-grained grant on the \<open>Table\<close>, and returns.\<close>

theorem both_selectors_not_rejected:
  "central_lambda_handler ok_service example_env [both_selectors] [] =
     (Inr (),
      [describe_sales,
       LF_grant_permissions ''arn:aws:iam::222222222222:role/consumer''
         \<lparr>r_Database = None,
          r_Table = Some \<lparr>tj_DatabaseName = ''sales'', tj_CatalogId = ''111111111111'',
                          tj_Name = Some ''orders'', tj_TableWildcard = None\<rparr>,
          r_TableWithColumns = None\<rparr>
         [''SELECT'', ''DESCRIBE''] (Some [])])"
  by (simp add: central_defs scenario_A_def io_defs ok_service_def strip_sales both_selectors_def
      orders_table_def orders_columns_def lower_grant example_env_def describe_sales_def)

text \<open>C4, amended: a record in which both selectors are populated is processed as the
  record without its \<open>TableWithColumns\<close>: on both paths \<open>buildjson\<close> and the handler do on
  it exactly what they do on the \<open>Table\<close> record.\<close>

theorem both_selectors_processed_as_table:
  assumes "Table ev = Some t"
  shows "central_buildjson svc env ev =
           central_buildjson svc env (ev\<lparr>TableWithColumns := None\<rparr>) \<and>
         consumption_buildjson svc env ev =
           consumption_buildjson svc env (ev\<lparr>TableWithColumns := None\<rparr>) \<and>
         central_lambda_handler svc env [ev] =
           central_lambda_handler svc env [ev\<lparr>TableWithColumns := None\<rparr>] \<and>
         consumption_lambda_handler svc env [ev] =
           consumption_lambda_handler svc env [ev\<lparr>TableWithColumns := None\<rparr>]"
proof -
  have c: "central_buildjson svc env (ev\<lparr>TableWithColumns := None\<rparr>) =
           central_buildjson svc env ev"
    using assms
    by (simp add: central_buildjson_def resource_block_table_wins perm_block_def
          cong: option.case_cong)
  have k: "consumption_buildjson svc env (ev\<lparr>TableWithColumns := None\<rparr>) =
           consumption_buildjson svc env ev"
    using assms
    by (simp add: consumption_buildjson_def resource_block_table_wins perm_block_def
          cong: option.case_cong)
  show ?thesis
    by (simp add: c k central_lambda_handler_def consumption_lambda_handler_def
        central_apply_def consumption_apply_def bind_io_def
        return_io_def fun_eq_iff split: prod.splits sum.splits)
qed

text \<open>A record of C4's amended statement: a table and columns of the same table.\<close>

theorem both_selectors_witness:
  "Table both_selectors = Some orders_table \<and>
   central_lambda_handler ok_service example_env [both_selectors] [] =
   central_lambda_handler ok_service example_env [both_selectors\<lparr>TableWithColumns := None\<rparr>] []"
proof -
  have h: "Table both_selectors = Some orders_table"
    by (simp add: both_selectors_def)
  from both_selectors_processed_as_table [OF h, of ok_service example_env] h
  show ?thesis by simp
qed

section \<open>C5: the errors of normalization\<close>

text \<open>C5, as stated, fails: the code has one exception class of its own. A principal that
  is no ARN and a record without a selector are both answered with \<open>LFAttributeError\<close>.\<close>

theorem both_causes_raise_LFAttributeError:
  "generate_db_perm example_env (scenario_A\<lparr>Principal := Some ''consumer''\<rparr>) [] =
     (Inl LFAttributeError, []) \<and>
   generate_db_perm example_env (scenario_A\<lparr>Table := None\<rparr>) [] =
     (Inl LFAttributeError, [])"
  by (simp add: generate_db_perm_def get_Principal_def scenario_A_def io_defs arn_consumer
      arn_match_def)

text \<open>C5, amended: normalization answers both causes with the one error \<open>LFAttributeError\<close>.
  For a record with a principal: \<open>generate_db_perm\<close> raises it when the principal does not
  match the ARN pattern, and when the record names no database (no selector, or the selector
  in use has no \<open>DatabaseName\<close>); \<open>buildjson\<close> of either path raises it, before any call, when
  the record names no database; and when the selector in use lacks a name, \<open>buildjson\<close> fails
  with it unless a service call made first raised, whose error then passes through.\<close>

theorem one_error_type:
  assumes "Principal ev = Some p"
  shows "(arn_match p = None \<longrightarrow> generate_db_perm env ev tr = (Inl LFAttributeError, tr)) \<and>
         (selector_database ev = None \<longrightarrow>
            generate_db_perm env ev tr = (Inl LFAttributeError, tr) \<and>
            central_buildjson svc env ev tr = (Inl LFAttributeError, tr) \<and>
            consumption_buildjson svc env ev tr = (Inl LFAttributeError, tr)) \<and>
         (selector_database ev \<noteq> None \<longrightarrow> lacks_name ev \<longrightarrow>
            (\<exists>e. fst (central_buildjson svc env ev tr) = Inl e \<and>
                  (e = LFAttributeError \<or> (\<exists>a. e = Aws a))) \<and>
            (\<exists>e. fst (consumption_buildjson svc env ev tr) = Inl e \<and>
                  (e = LFAttributeError \<or> (\<exists>a. e = Aws a))))"
proof (intro conjI impI)
  assume "arn_match p = None"
  with assms show "generate_db_perm env ev tr = (Inl LFAttributeError, tr)"
    by (simp add: generate_db_perm_def get_Principal_def bind_io_def return_io_def raise_io_def)
next
  assume n: "selector_database ev = None"
  with assms show "generate_db_perm env ev tr = (Inl LFAttributeError, tr)"
    by (auto simp: generate_db_perm_def get_Principal_def selector_database_def
          bind_io_def return_io_def raise_io_def split: option.splits)
  from assms show "central_buildjson svc env ev tr = (Inl LFAttributeError, tr)"
    by (simp add: central_buildjson_def bind_io_def resource_block_no_database [OF n])
  from assms show "consumption_buildjson svc env ev tr = (Inl LFAttributeError, tr)"
    by (simp add: consumption_buildjson_def bind_io_def resource_block_no_database [OF n])
next
  assume "selector_database ev \<noteq> None" and ln: "lacks_name ev"
  then obtain d where d: "selector_database ev = Some d" by auto
  from central_buildjson_lacks_name [OF assms d ln, of svc env tr]
  show "\<exists>e. fst (central_buildjson svc env ev tr) = Inl e \<and>
                  (e = LFAttributeError \<or> (\<exists>a. e = Aws a))"
    by (cases "svc tr (central_describe_call p d)") auto
  note k = consumption_buildjson_lacks_name [OF assms d ln, of svc env tr]
  obtain r t where r: "consumption_grant_db_describe svc env p d tr = (r, t)"
    by (cases "consumption_grant_db_describe svc env p d tr")
  show "\<exists>e. fst (consumption_buildjson svc env ev tr) = Inl e \<and>
                  (e = LFAttributeError \<or> (\<exists>a. e = Aws a))"
  proof (cases r)
    case (Inl e)
    with r consumption_describe_aws_error [of svc env p d tr e t] k show ?thesis by auto
  next
    case (Inr n)
    with r k show ?thesis by simp
  qed
qed

text \<open>A record of C5's amended statement: scenario A, whose \<open>Table\<close> lacks a name.\<close>

theorem one_error_type_witness:
  "Principal scenario_A = Some consumer \<and> selector_database scenario_A \<noteq> None \<and>
   lacks_name scenario_A \<and>
   (\<exists>e. fst (central_buildjson ok_service example_env scenario_A []) = Inl e \<and>
        (e = LFAttributeError \<or> (\<exists>a. e = Aws a)))"
proof -
  have d: "selector_database scenario_A \<noteq> None"
    by (simp add: scenario_A_facts)
  from one_error_type [OF scenario_A_facts(1), THEN conjunct2, THEN conjunct2, rule_format,
      OF d scenario_A_facts(3), THEN conjunct1, of ok_service example_env "[]"]
    scenario_A_facts d
  show ?thesis by blast
qed

text \<open>A record without \<open>Permissions\<close> is a case apart: the \<open>else\<close> branch of \<open>buildjson\<close>
  names the exception without raising it, so normalization returns, and the handler fails
  later with the \<open>KeyError\<close> of \<open>perm_json['Permissions']\<close>, the DESCRIBE grant made.\<close>

lemma absent_permissions_raise_KeyError:
  "central_lambda_handler ok_service example_env
     [scenario_A\<lparr>Table := Some orders_table, Permissions := None\<rparr>] [] =
     (Inl (KeyError ''Permissions''), [describe_sales])"
  by (simp add: central_defs scenario_A_def io_defs ok_service_def strip_sales
      orders_table_def lower_grant example_env_def describe_sales_def)

section \<open>C6: the order of the dispatcher's publishes\<close>

lemma dispatch_two_example:
  "dispatch_records ok_service example_env [manifest_grant, manifest_revoke] [] =
     (Inr (),
      [SNS_publish example_topic sales_intent ''111111111111'',
       Sleep 3,
       SNS_publish example_topic manifest_grant ''222222222222'',
       SNS_publish example_topic manifest_revoke ''222222222222''])"
  by (simp add: dispatch_defs manifest_grant_def manifest_revoke_def scenario_A_def
      orders_table_def all_tables_def sales_intent_def example_topic_def example_env_def
      ok_service_def io_defs arn_consumer)

text \<open>C6. When the dispatcher returns, the calls it has made are exactly \<open>expected_calls\<close>:
  record by record in the order of the batch, for a grant to another account than the
  central one the describe intent, then a pause of 3 seconds if that publish answered 200,
  and then, for every record, grant or revoke, the record itself, once. This holds for the
  records of one manifest and for all the manifests of an invocation. In a run that raises
  (a record that fails validation, a publish that fails) the calls made are a prefix of
  these: nothing is published out of this order, and the records from the failing one on
  are not published.\<close>

theorem describe_intent_precedes_record:
  "(dispatch_records svc env rs tr = (Inr (), tr') \<longrightarrow>
      tr' = tr @ expected_calls svc env rs tr) \<and>
   (dispatcher_lambda_handler svc env s3 ms tr = (Inr (), tr') \<longrightarrow>
      tr' = tr @ expected_calls svc env (concat (map (manifest s3) ms)) tr) \<and>
   (dispatch_records svc env rs tr = (res, tr') \<longrightarrow>
      (\<exists>new. tr' = tr @ new \<and> prefix new (expected_calls svc env rs tr)))"
  using dispatch_records_success [of svc env rs tr tr']
    dispatcher_success [of svc env s3 ms tr tr']
    dispatch_records_prefix [of svc env rs tr res tr']
  by blast

text \<open>A run of C6: a grant to account 222222222222 and a revoke, with the central account
  111111111111 and publishes that answer 200.\<close>

theorem describe_intent_precedes_record_witness:
  "dispatch_records ok_service example_env [manifest_grant, manifest_revoke] [] =
     (Inr (),
      [SNS_publish example_topic sales_intent ''111111111111'',
       Sleep 3,
       SNS_publish example_topic manifest_grant ''222222222222'',
       SNS_publish example_topic manifest_revoke ''222222222222'']) \<and>
   expected_calls ok_service example_env [manifest_grant, manifest_revoke] [] =
     [SNS_publish example_topic sales_intent ''111111111111'',
       Sleep 3,
       SNS_publish example_topic manifest_grant ''222222222222'',
       SNS_publish example_topic manifest_revoke ''222222222222'']"
  using describe_intent_precedes_record [THEN conjunct1, rule_format, OF dispatch_two_example]
    dispatch_two_example
  by simp

section \<open>C7: the resource link\<close>

text \<open>C7. The claim: for every database name the link looked up is \<open>foundation_\<close> followed
  by the bare name, and the link created points at the bare name. The code tests whether
  \<open>foundation_\<close> occurs anywhere in the name and takes what follows its first occurrence as
  the bare name. For the database \<open>my_foundation_db\<close> it looks up \<open>my_foundation_db\<close> and
  creates that link pointing at the foundation database \<open>db\<close>.\<close>

theorem inner_prefix_links_wrong_database:
  "consumption_grant_db_describe fresh_catalog_service example_env consumer
     ''my_foundation_db'' [] =
     (Inr 200,
      [Glue_get_database ''my_foundation_db'',
       Glue_create_database ''my_foundation_db'' ''333333333333'' ''db'',
       LF_grant_permissions consumer
         \<lparr>r_Database = Some \<lparr>dj_CatalogId = Some ''111111111111'',
                              dj_Name = ''my_foundation_db''\<rparr>,
          r_Table = None, r_TableWithColumns = None\<rparr> [''DESCRIBE''] None])"
  by (simp add: consumption_grant_db_describe_def check_db_exist_def io_defs
      fresh_catalog_service_def py_split_def index1_def example_env_def Let_def)

text \<open>On a name in which \<open>foundation_\<close> occurs at most as the leading prefix, the reconciler
  does what the claim says: it looks up the prefixed name; when the link exists it creates
  nothing; when the lookup says not found it creates the link to the bare name in the
  foundation catalog; any other failure of the lookup is raised after that one call.\<close>

lemma reconciler_on_plain_names:
  assumes b: "\<not> str_in ''foundation_'' b"
    and d: "database = b \<or> database = ''foundation_'' @ b"
  shows "consumption_grant_db_describe svc env p database tr =
     (let link = ''foundation_'' @ b;
          get = Glue_get_database link;
          create = Glue_create_database link (FOUNDATION_ACCOUNT_ID env) b;
          grant = LF_grant_permissions p
             \<lparr>r_Database = Some \<lparr>dj_CatalogId = Some (ACCOUNT_ID env), dj_Name = link\<rparr>,
              r_Table = None, r_TableWithColumns = None\<rparr> [''DESCRIBE''] None
      in case svc tr get of
           Inr n \<Rightarrow>
             ((case svc (tr @ [get]) grant of Inl e \<Rightarrow> Inl (Aws e) | Inr n \<Rightarrow> Inr n),
              tr @ [get, grant])
         | Inl EntityNotFoundException \<Rightarrow>
             (case svc (tr @ [get]) create of
                Inl e \<Rightarrow> (Inl (Aws e), tr @ [get, create])
              | Inr n \<Rightarrow>
                  ((case svc (tr @ [get, create]) grant of
                      Inl e \<Rightarrow> Inl (Aws e) | Inr n \<Rightarrow> Inr n),
                   tr @ [get, create, grant]))
         | Inl e \<Rightarrow> (Inl (Aws e), tr @ [get]))"
proof -
  have l: "(if \<not> str_in ''foundation_'' database then ''foundation_'' @ database else database)
             = ''foundation_'' @ b"
    using b d by auto
  show ?thesis
    unfolding consumption_grant_db_describe_def l Let_def
    using b
    by (auto simp: check_db_exist_def io_defs index1_def split_prefixed [simplified]
          split: sum.splits aws_error.splits)
qed

section \<open>C8: grantable permissions\<close>

lemma grant_orders_consumption:
  "consumption_lambda_handler fresh_catalog_service example_env [grant_orders] [] =
     (Inr (),
      [Glue_get_database ''foundation_sales'',
       Glue_create_database ''foundation_sales'' ''333333333333'' ''sales'',
       LF_grant_permissions ''arn:aws:iam::222222222222:role/consumer''
         \<lparr>r_Database = Some \<lparr>dj_CatalogId = Some ''111111111111'',
                              dj_Name = ''foundation_sales''\<rparr>,
          r_Table = None, r_TableWithColumns = None\<rparr> [''DESCRIBE''] None,
       LF_grant_permissions ''arn:aws:iam::222222222222:role/consumer''
         \<lparr>r_Database = None,
          r_Table = Some \<lparr>tj_DatabaseName = ''sales'', tj_CatalogId = ''333333333333'',
                          tj_Name = Some ''orders'', tj_TableWildcard = None\<rparr>,
          r_TableWithColumns = None\<rparr>
         [''SELECT''] None])"
  by (simp add: consumption_defs grant_orders_def scenario_A_def io_defs
      fresh_catalog_service_def strip_sales split_sales index1_def orders_table_def
      lower_grant example_env_def Let_def)

lemma grant_orders_central:
  "central_lambda_handler ok_service example_env [grant_orders] [] =
     (Inr (),
      [describe_sales,
       LF_grant_permissions ''arn:aws:iam::222222222222:role/consumer''
         \<lparr>r_Database = None,
          r_Table = Some \<lparr>tj_DatabaseName = ''sales'', tj_CatalogId = ''111111111111'',
                          tj_Name = Some ''orders'', tj_TableWildcard = None\<rparr>,
          r_TableWithColumns = None\<rparr>
         [''SELECT'', ''DESCRIBE''] (Some [''SELECT'', ''DESCRIBE''])])"
  by (simp add: central_defs grant_orders_def scenario_A_def io_defs ok_service_def
      strip_sales orders_table_def lower_grant example_env_def describe_sales_def)

text \<open>C8. On the consumption path no call of a run, failed or not, carries
  \<open>PermissionsWithGrantOption\<close>: every grant is made without that argument. On the central
  path, when the input has \<open>PermissionsWithGrantOption\<close>, whatever it holds, \<open>buildjson\<close>
  returns \<open>[SELECT, DESCRIBE]\<close> for it, and the grant that ends a run for that record
  carries exactly \<open>[SELECT, DESCRIBE]\<close> as its grantable permissions.\<close>

theorem grant_option_policy:
  "(consumption_lambda_handler svc env rs tr = (res, tr') \<longrightarrow>
      (\<exists>new. tr' = tr @ new \<and> list_all no_grant_option new)) \<and>
   (central_buildjson svc env ev tr = (Inr (p, t, c, perm, pg), tr2) \<longrightarrow>
      PermissionsWithGrantOption ev = Some g \<longrightarrow> pg = Some [''SELECT'', ''DESCRIBE'']) \<and>
   (central_lambda_handler svc env rs tr = (Inr (), tr3) \<longrightarrow>
      PermissionsWithGrantOption (last rs) = Some g \<longrightarrow>
      (\<forall>q r ps x. last tr3 = LF_grant_permissions q r ps x \<longrightarrow>
                     x = Some [''SELECT'', ''DESCRIBE'']))"
proof (intro conjI impI)
  assume "consumption_lambda_handler svc env rs tr = (res, tr')"
  with emits_consumption_handler show "\<exists>new. tr' = tr @ new \<and> list_all no_grant_option new"
    by (rule emitsD)
next
  assume "central_buildjson svc env ev tr = (Inr (p, t, c, perm, pg), tr2)"
    and "PermissionsWithGrantOption ev = Some g"
  with central_buildjson_success show "pg = Some [''SELECT'', ''DESCRIBE'']"
    by fastforce
next
  assume h: "central_lambda_handler svc env rs tr = (Inr (), tr3)"
    and g: "PermissionsWithGrantOption (last rs) = Some g"
  from central_handler_success [OF h] obtain new c where
    "tr3 = tr @ new @ [c]"
    "\<forall>p r ps g. c = LF_grant_permissions p r ps g \<longrightarrow>
        g = Some (case PermissionsWithGrantOption (last rs) of
                    Some x \<Rightarrow> [''SELECT'', ''DESCRIBE''] | None \<Rightarrow> [])" by blast
  with g show "\<forall>q r ps x. last tr3 = LF_grant_permissions q r ps x \<longrightarrow>
                     x = Some [''SELECT'', ''DESCRIBE'']" by simp
qed

text \<open>A run of C8 on each path: a grant on a table whose record asks for the grantable
  permission \<open>ALL\<close>.\<close>

theorem grant_option_policy_witness:
  "PermissionsWithGrantOption (last [grant_orders]) = Some [''ALL''] \<and>
   fst (consumption_lambda_handler fresh_catalog_service example_env [grant_orders] []) = Inr () \<and>
   list_all no_grant_option
     (snd (consumption_lambda_handler fresh_catalog_service example_env [grant_orders] [])) \<and>
   fst (central_lambda_handler ok_service example_env [grant_orders] []) = Inr () \<and>
   (\<exists>q r ps.
      last (snd (central_lambda_handler ok_service example_env [grant_orders] [])) =
        LF_grant_permissions q r ps (Some [''SELECT'', ''DESCRIBE'']))"
proof -
  have g: "PermissionsWithGrantOption (last [grant_orders]) = Some [''ALL'']"
    by (simp add: grant_orders_def)
  from grant_option_policy [THEN conjunct1, rule_format, OF grant_orders_consumption]
  have "list_all no_grant_option
     (snd (consumption_lambda_handler fresh_catalog_service example_env [grant_orders] []))"
    by (auto simp: grant_orders_consumption)
  moreover
  obtain q r ps x where
    l: "last (snd (central_lambda_handler ok_service example_env [grant_orders] [])) =
          LF_grant_permissions q r ps x"
    by (simp add: grant_orders_central)
  have h: "central_lambda_handler ok_service example_env [grant_orders] [] =
      (Inr (), snd (central_lambda_handler ok_service example_env [grant_orders] []))"
    by (simp add: grant_orders_central)
  from grant_option_policy [THEN conjunct2, THEN conjunct2, rule_format, OF h g, of q r ps x] l
  have "x = Some [''SELECT'', ''DESCRIBE'']"
    by blast
  with l have "\<exists>q r ps.
      last (snd (central_lambda_handler ok_service example_env [grant_orders] [])) =
        LF_grant_permissions q r ps (Some [''SELECT'', ''DESCRIBE''])"
    by blast
  ultimately show ?thesis
    using g by (simp add: grant_orders_consumption grant_orders_central)
qed

section \<open>C9: a batch of several records\<close>

lemma batch_central:
  "central_lambda_handler ok_service example_env [grant_orders, revoke_customers] [] =
     (Inr (),
      [describe_sales,
       central_describe_call ''arn:aws:iam::444444444444:role/analyst'' ''crm'',
       revoke_call])"
  by (simp add: central_defs grant_orders_def revoke_customers_def scenario_A_def io_defs
      ok_service_def strip_sales strip_crm orders_table_def lower_Revoke example_env_def
      describe_sales_def central_describe_call_def revoke_call_def)

text \<open>C9. When a handler returns on a batch, the batch is not empty and the calls made are:
  for every record of the batch, in order, the DESCRIBE grant on its database (on the
  consumption path with the catalog calls of the reconciler between them, and no other
  permission call), and then one fine-grained call, the grant or revoke of the last record
  with the permissions computed from the last record. No record before the last has its own
  permission applied. In every run, returning or raising, every call but the last one made
  is a call of normalization (a catalog call or a DESCRIBE grant on a database).\<close>

theorem only_last_record_applied:
  "(central_lambda_handler svc env rs tr = (Inr (), tr') \<longrightarrow>
      rs \<noteq> [] \<and>
      (\<exists>new c. tr' = tr @ new @ [c] \<and>
         list_all2 (describes central_describe_call) rs new \<and>
         applies [''SELECT'', ''DESCRIBE''] (last rs) c)) \<and>
   (consumption_lambda_handler svc env rs tr = (Inr (), tr') \<longrightarrow>
      rs \<noteq> [] \<and>
      (\<exists>new c. tr' = tr @ new @ [c] \<and>
         list_all2 (describes (consumption_describe_call env)) rs
           (filter is_permission_call new) \<and>
         applies [''SELECT''] (last rs) c)) \<and>
   (central_lambda_handler svc env rs tr = (res, tr') \<or>
    consumption_lambda_handler svc env rs tr = (res, tr') \<longrightarrow>
      (\<exists>new. tr' = tr @ new \<and> list_all db_level (butlast new)))"
  using central_handler_success [of svc env rs tr tr']
    consumption_handler_success [of svc env rs tr tr']
    central_handler_butlast [of svc env rs tr res tr']
    consumption_handler_butlast [of svc env rs tr res tr']
  by blast

text \<open>A run of C9: a grant on \<open>orders\<close> followed by a revoke on \<open>customers\<close>. Both databases
  get their DESCRIBE grant; the only fine-grained call is the revoke of the second record,
  and the grant on \<open>orders\<close> is never made.\<close>

theorem only_last_record_applied_witness:
  "central_lambda_handler ok_service example_env [grant_orders, revoke_customers] [] =
     (Inr (),
      [describe_sales,
       central_describe_call ''arn:aws:iam::444444444444:role/analyst'' ''crm'',
       revoke_call]) \<and>
   (\<exists>new c.
      [describe_sales,
       central_describe_call ''arn:aws:iam::444444444444:role/analyst'' ''crm'',
       revoke_call] = [] @ new @ [c] \<and>
      list_all2 (describes central_describe_call) [grant_orders, revoke_customers] new \<and>
      applies [''SELECT'', ''DESCRIBE''] (last [grant_orders, revoke_customers]) c)"
  using only_last_record_applied [THEN conjunct1, rule_format, OF batch_central]
    batch_central
  by blast

section \<open>C10: the validation error comes after the DESCRIBE grant\<close>

lemma describe_sales_consumption:
  "consumption_grant_db_describe fresh_catalog_service example_env consumer
     ''foundation_sales'' [] =
     (Inr 200,
      [Glue_get_database ''foundation_sales'',
       Glue_create_database ''foundation_sales'' ''333333333333'' ''sales'',
       consumption_describe_call example_env consumer ''foundation_sales''])"
  by (simp add: consumption_grant_db_describe_def check_db_exist_def io_defs
      fresh_catalog_service_def split_sales index1_def example_env_def Let_def
      consumption_describe_call_def link_name_def)

text \<open>C10. For a record with a principal whose selector has a \<open>DatabaseName\<close> but lacks a
  name (a \<open>Table\<close> with neither \<open>Name\<close> nor \<open>TableWildcard\<close>; a \<open>TableWithColumns\<close> without
  \<open>Name\<close>, or with neither \<open>ColumnNames\<close> nor \<open>ColumnWildcard\<close>): on the central path
  \<open>buildjson\<close> first makes the DESCRIBE grant on the record's database and then raises
  \<open>LFAttributeError\<close> (or the error of that grant, if it failed); on the consumption path it
  runs \<open>grant_db_describe\<close> first and raises \<open>LFAttributeError\<close> when that returned, and
  whenever it raises \<open>LFAttributeError\<close> the last call made is the DESCRIBE grant on the
  record's database.\<close>

theorem validation_error_after_describe:
  assumes "Principal ev = Some p" and "selector_database ev = Some d" and "lacks_name ev"
  shows "central_buildjson svc env ev tr =
           ((case svc tr (central_describe_call p d) of
               Inl e \<Rightarrow> Inl (Aws e) | Inr n \<Rightarrow> Inl LFAttributeError),
            tr @ [central_describe_call p d]) \<and>
         consumption_buildjson svc env ev tr =
           (case consumption_grant_db_describe svc env p d tr of
              (Inl e, t) \<Rightarrow> (Inl e, t) | (Inr n, t) \<Rightarrow> (Inl LFAttributeError, t)) \<and>
         (\<forall>t. consumption_buildjson svc env ev tr = (Inl LFAttributeError, t) \<longrightarrow>
              (\<exists>mid. t = tr @ mid @ [consumption_describe_call env p d]))"
proof -
  note c = central_buildjson_lacks_name [OF assms, of svc env tr]
  note k = consumption_buildjson_lacks_name [OF assms, of svc env tr]
  have "\<exists>mid. t = tr @ mid @ [consumption_describe_call env p d]"
    if "consumption_buildjson svc env ev tr = (Inl LFAttributeError, t)" for t
  proof -
    obtain res t1 where r: "consumption_grant_db_describe svc env p d tr = (res, t1)"
      by (cases "consumption_grant_db_describe svc env p d tr")
    show ?thesis
    proof (cases res)
      case (Inl e)
      with r k that consumption_describe_aws_error [of svc env p d tr e t1] show ?thesis
        by auto
    next
      case (Inr n)
      with r k that have "t = t1" by simp
      with Inr r consumption_describe_ends [of svc env p d tr n t1] show ?thesis by blast
    qed
  qed
  with c k show ?thesis by blast
qed

text \<open>A record of C10: scenario A, on both paths, with services that answer.\<close>

theorem validation_error_after_describe_witness:
  "Principal scenario_A = Some consumer \<and>
   selector_database scenario_A = Some ''foundation_sales'' \<and> lacks_name scenario_A \<and>
   central_buildjson ok_service example_env scenario_A [] =
     (Inl LFAttributeError, [central_describe_call consumer ''foundation_sales'']) \<and>
   consumption_buildjson fresh_catalog_service example_env scenario_A [] =
     (Inl LFAttributeError,
      [Glue_get_database ''foundation_sales'',
       Glue_create_database ''foundation_sales'' ''333333333333'' ''sales'',
       consumption_describe_call example_env consumer ''foundation_sales''])"
proof -
  note t = validation_error_after_describe [OF scenario_A_facts]
  from t [of ok_service example_env "[]"]
  have "central_buildjson ok_service example_env scenario_A [] =
     (Inl LFAttributeError, [central_describe_call consumer ''foundation_sales''])"
    by (simp add: ok_service_def)
  moreover from t [of fresh_catalog_service example_env "[]"]
  have "consumption_buildjson fresh_catalog_service example_env scenario_A [] =
     (Inl LFAttributeError,
      [Glue_get_database ''foundation_sales'',
       Glue_create_database ''foundation_sales'' ''333333333333'' ''sales'',
       consumption_describe_call example_env consumer ''foundation_sales''])"
    by (simp add: describe_sales_consumption)
  ultimately show ?thesis using scenario_A_facts by simp
qed

end
